theory Spec2Isabelle
  imports Complex_Main "HOL-Library.Multiset"
begin

section \<open>JavaScript numbers\<close>

text \<open>
  A JavaScript number is an IEEE 754 binary64 value.  A finite value is kept as the
  rational it denotes; the negative zero, the two infinities and NaN are constructors of
  their own.  \<open>Fin 0\<close> is the positive zero.  Every arithmetic operation computes the
  exact rational result and rounds it to the nearest binary64 value, ties to even
  (\<open>round_double\<close>), with gradual underflow below \<open>2\<^sup>-\<^sup>1\<^sup>0\<^sup>2\<^sup>2\<close> and overflow to an
  infinity from \<open>2\<^sup>1\<^sup>0\<^sup>2\<^sup>4\<close>.
\<close>

datatype jsnum = Fin rat | NegZero | PosInf | NegInf | NaN

text \<open>Powers of two with an integer exponent, by repeated squaring.\<close>

function pow2_nonneg :: "int \<Rightarrow> rat" where
  "pow2_nonneg k =
     (if k \<le> 0 then 1
      else let h = pow2_nonneg (k div 2) in if even k then h * h else 2 * h * h)"
  by pat_completeness auto
termination
  by (relation "measure nat") auto

declare pow2_nonneg.simps [simp del]

definition pow2 :: "int \<Rightarrow> rat" where
  "pow2 k = (if 0 \<le> k then pow2_nonneg k else 1 / pow2_nonneg (- k))"

function bit_length :: "int \<Rightarrow> int" where
  "bit_length n = (if n \<le> 0 then 0 else 1 + bit_length (n div 2))"
  by pat_completeness auto
termination
  by (relation "measure nat") auto

declare bit_length.simps [simp del]

text \<open>\<open>ilog2 a\<close> is the integer \<open>e\<close> with \<open>2\<^sup>e \<le> a < 2\<^sup>e\<^sup>+\<^sup>1\<close>, for a positive \<open>a\<close>.\<close>

definition ilog2 :: "rat \<Rightarrow> int" where
  "ilog2 a =
     (case quotient_of a of (p, q) \<Rightarrow>
        let k = bit_length p - bit_length q
        in if pow2 k \<le> a then k else k - 1)"

definition round_half_even :: "rat \<Rightarrow> int" where
  "round_half_even r =
     (let f = \<lfloor>r\<rfloor>; d = r - of_int f
      in if d < 1 / 2 then f
         else if 1 / 2 < d then f + 1
         else if even f then f else f + 1)"

definition round_double :: "rat \<Rightarrow> jsnum" where
  "round_double x =
     (if x = 0 then Fin 0
      else
        let a = \<bar>x\<bar>;
            e = max (ilog2 a) (- 1022);
            q = pow2 (e - 52);
            m = of_int (round_half_even (a / q)) * q
        in if pow2 1024 \<le> m then (if x < 0 then NegInf else PosInf)
           else if m = 0 then (if x < 0 then NegZero else Fin 0)
           else Fin (if x < 0 then - m else m))"

text \<open>The values a number can really hold: the fixed points of the rounding.\<close>

fun is_double :: "jsnum \<Rightarrow> bool" where
  "is_double (Fin x) = (round_double x = Fin x)"
| "is_double _ = True"

fun is_finite :: "jsnum \<Rightarrow> bool" where
  "is_finite (Fin x) = True"
| "is_finite NegZero = True"
| "is_finite _ = False"

fun is_zero :: "jsnum \<Rightarrow> bool" where
  "is_zero (Fin x) = (x = 0)"
| "is_zero NegZero = True"
| "is_zero _ = False"

text \<open>The sign bit (of no meaning for NaN) and the value of a finite number.\<close>

fun negative :: "jsnum \<Rightarrow> bool" where
  "negative (Fin x) = (x < 0)"
| "negative NegZero = True"
| "negative NegInf = True"
| "negative _ = False"

fun val :: "jsnum \<Rightarrow> rat" where
  "val (Fin x) = x"
| "val _ = 0"

definition signed_zero :: "bool \<Rightarrow> jsnum" where
  "signed_zero neg = (if neg then NegZero else Fin 0)"

definition signed_inf :: "bool \<Rightarrow> jsnum" where
  "signed_inf neg = (if neg then NegInf else PosInf)"

fun js_neg :: "jsnum \<Rightarrow> jsnum" where
  "js_neg (Fin x) = (if x = 0 then NegZero else Fin (- x))"
| "js_neg NegZero = Fin 0"
| "js_neg PosInf = NegInf"
| "js_neg NegInf = PosInf"
| "js_neg NaN = NaN"

fun js_add :: "jsnum \<Rightarrow> jsnum \<Rightarrow> jsnum" where
  "js_add NaN _ = NaN"
| "js_add _ NaN = NaN"
| "js_add PosInf NegInf = NaN"
| "js_add NegInf PosInf = NaN"
| "js_add PosInf _ = PosInf"
| "js_add _ PosInf = PosInf"
| "js_add NegInf _ = NegInf"
| "js_add _ NegInf = NegInf"
| "js_add NegZero NegZero = NegZero"
| "js_add x y = round_double (val x + val y)"

definition js_sub :: "jsnum \<Rightarrow> jsnum \<Rightarrow> jsnum" where
  "js_sub x y = js_add x (js_neg y)"

definition js_mul :: "jsnum \<Rightarrow> jsnum \<Rightarrow> jsnum" where
  "js_mul x y =
     (let s = (negative x \<noteq> negative y)
      in if x = NaN \<or> y = NaN then NaN
         else if \<not> is_finite x \<or> \<not> is_finite y then
           (if is_zero x \<or> is_zero y then NaN else signed_inf s)
         else if is_zero x \<or> is_zero y then signed_zero s
         else round_double (val x * val y))"

definition js_div :: "jsnum \<Rightarrow> jsnum \<Rightarrow> jsnum" where
  "js_div x y =
     (let s = (negative x \<noteq> negative y)
      in if x = NaN \<or> y = NaN then NaN
         else if \<not> is_finite x then (if is_finite y then signed_inf s else NaN)
         else if \<not> is_finite y then signed_zero s
         else if is_zero y then (if is_zero x then NaN else signed_inf s)
         else if is_zero x then signed_zero s
         else round_double (val x / val y))"

text \<open>The relational operators: every comparison with NaN is false, the two zeros
  are equal.\<close>

fun js_le :: "jsnum \<Rightarrow> jsnum \<Rightarrow> bool" where
  "js_le NaN _ = False"
| "js_le _ NaN = False"
| "js_le NegInf _ = True"
| "js_le _ PosInf = True"
| "js_le PosInf _ = False"
| "js_le _ NegInf = False"
| "js_le x y = (val x \<le> val y)"

definition js_ge :: "jsnum \<Rightarrow> jsnum \<Rightarrow> bool" where
  "js_ge x y = js_le y x"

definition js_lt :: "jsnum \<Rightarrow> jsnum \<Rightarrow> bool" where
  "js_lt x y = (js_le x y \<and> \<not> js_le y x)"

definition js_gt :: "jsnum \<Rightarrow> jsnum \<Rightarrow> bool" where
  "js_gt x y = js_lt y x"

definition js_strict_eq :: "jsnum \<Rightarrow> jsnum \<Rightarrow> bool" where
  "js_strict_eq x y = (js_le x y \<and> js_le y x)"

text \<open>A numeric literal of the source denotes the nearest binary64 value.\<close>

definition literal :: "rat \<Rightarrow> jsnum" where
  "literal x = round_double x"

section \<open>Averaging and classification\<close>

definition THRESHOLD_SUNNY :: jsnum where
  "THRESHOLD_SUNNY = literal (1 / 100)"

definition THRESHOLD_RAINY :: jsnum where
  "THRESHOLD_RAINY = js_neg (literal (1 / 100))"

text \<open>The local \<open>difference\<close> of \<open>determineWeather\<close>.\<close>

definition relative_difference :: "jsnum \<Rightarrow> jsnum \<Rightarrow> jsnum" where
  "relative_difference currentRate avgRate = js_div (js_sub currentRate avgRate) avgRate"

definition determineWeather :: "jsnum \<Rightarrow> jsnum \<Rightarrow> string" where
  "determineWeather currentRate avgRate =
     (let difference = relative_difference currentRate avgRate
      in if js_ge difference THRESHOLD_SUNNY then ''sunny''
         else if js_le difference THRESHOLD_RAINY then ''rainy''
         else ''cloudy'')"

text \<open>\<open>rates.reduce((acc, val) => acc + val, 0)\<close>, from the left.\<close>

definition js_sum :: "jsnum list \<Rightarrow> jsnum" where
  "js_sum rates = foldl js_add (Fin 0) rates"

text \<open>The series is an array of numbers here, so \<open>Array.isArray\<close> holds and the guard is
  the test for the empty array.\<close>

definition calculateAverage :: "jsnum list \<Rightarrow> jsnum" where
  "calculateAverage rates =
     (if rates = [] then Fin 0
      else js_div (js_sum rates) (Fin (of_nat (length rates))))"

section \<open>JavaScript values and JSON\<close>

text \<open>
  The values that occur in the program: the parsed bodies of the provider's responses and
  the payloads of the cache.  An object is the list of its own enumerable members in
  enumeration order, with distinct keys.
\<close>

datatype jsval =
    Undefined
  | Null
  | Boolean bool
  | Number jsnum
  | Str string
  | Arr "jsval list"
  | Obj "(string \<times> jsval) list"

fun js_typeof :: "jsval \<Rightarrow> string" where
  "js_typeof Undefined = ''undefined''"
| "js_typeof Null = ''object''"
| "js_typeof (Boolean b) = ''boolean''"
| "js_typeof (Number n) = ''number''"
| "js_typeof (Str s) = ''string''"
| "js_typeof (Arr xs) = ''object''"
| "js_typeof (Obj kvs) = ''object''"

fun truthy :: "jsval \<Rightarrow> bool" where
  "truthy Undefined = False"
| "truthy Null = False"
| "truthy (Boolean b) = b"
| "truthy (Number n) = (\<not> is_zero n \<and> n \<noteq> NaN)"
| "truthy (Str s) = (s \<noteq> [])"
| "truthy (Arr xs) = True"
| "truthy (Obj kvs) = True"

text \<open>Decimal numerals.\<close>

function decimal :: "int \<Rightarrow> string" where
  "decimal n =
     (if n < 10 then [''0123456789'' ! nat n]
      else decimal (n div 10) @ [''0123456789'' ! nat (n mod 10)])"
  by pat_completeness auto
termination
  by (relation "measure nat") auto

declare decimal.simps [simp del]

definition show_nat :: "nat \<Rightarrow> string" where
  "show_nat n = decimal (int n)"

definition is_digit :: "char \<Rightarrow> bool" where
  "is_digit c = (48 \<le> (of_char c :: nat) \<and> (of_char c :: nat) \<le> 57)"

definition parse_index :: "string \<Rightarrow> nat option" where
  "parse_index k =
     (if k = [] \<or> \<not> list_all is_digit k \<or> (hd k = CHR ''0'' \<and> length k \<noteq> 1) then None
      else Some (foldl (\<lambda>n c. 10 * n + (of_char c - 48)) 0 k))"

text \<open>
  \<open>o[k]\<close> for a key \<open>k\<close> that is not the name of a member inherited from a prototype
  (the program reads \<open>rates\<close> and the code of the quote currency).  Reading a member of
  \<open>undefined\<close> or \<open>null\<close> throws; \<open>member\<close> is for the places where the program has
  excluded them, \<open>member_or_throw\<close> for the others.
\<close>

datatype error = Error string | TypeError | FetchRejected | JsonRejected

fun member :: "jsval \<Rightarrow> string \<Rightarrow> jsval" where
  "member (Obj kvs) k = (case map_of kvs k of Some v \<Rightarrow> v | None \<Rightarrow> Undefined)"
| "member (Arr xs) k =
     (if k = ''length'' then Number (Fin (of_nat (length xs)))
      else case parse_index k of
             Some i \<Rightarrow> if i < length xs then xs ! i else Undefined
           | None \<Rightarrow> Undefined)"
| "member (Str s) k =
     (if k = ''length'' then Number (Fin (of_nat (length s)))
      else case parse_index k of
             Some i \<Rightarrow> if i < length s then Str [s ! i] else Undefined
           | None \<Rightarrow> Undefined)"
| "member _ k = Undefined"

fun member_or_throw :: "jsval \<Rightarrow> string \<Rightarrow> error + jsval" where
  "member_or_throw Undefined k = Inl TypeError"
| "member_or_throw Null k = Inl TypeError"
| "member_or_throw v k = Inr (member v k)"

text \<open>The keys a \<open>for ... in\<close> loop visits, in order.\<close>

fun keys_of :: "jsval \<Rightarrow> string list" where
  "keys_of (Obj kvs) = map fst kvs"
| "keys_of (Arr xs) = map show_nat [0 ..< length xs]"
| "keys_of (Str s) = map show_nat [0 ..< length s]"
| "keys_of _ = []"

text \<open>
  \<open>JSON.parse (JSON.stringify v)\<close> for a value in an array or at the top: \<open>undefined\<close>,
  NaN and the infinities are written as \<open>null\<close>, the negative zero as \<open>0\<close>, a member whose
  value is \<open>undefined\<close> is left out.
\<close>

fun json_value :: "jsval \<Rightarrow> jsval" where
  "json_value Undefined = Null"
| "json_value Null = Null"
| "json_value (Boolean b) = Boolean b"
| "json_value (Number n) =
     (if is_finite n then Number (if n = NegZero then Fin 0 else n) else Null)"
| "json_value (Str s) = Str s"
| "json_value (Arr xs) = Arr (map json_value xs)"
| "json_value (Obj kvs) =
     Obj (map (\<lambda>(k, v). (k, json_value v)) (filter (\<lambda>(k, v). v \<noteq> Undefined) kvs))"

text \<open>The same for the member \<open>data\<close> of the cache entry: left out when \<open>undefined\<close>, and
  read back as \<open>undefined\<close>.\<close>

definition json_member :: "jsval \<Rightarrow> jsval" where
  "json_member v = (if v = Undefined then Undefined else json_value v)"

section \<open>The rate source client\<close>

text \<open>
  What the HTTP exchange of a fetch comes to: \<open>fetch\<close> rejects, or it resolves with a
  response that has a status flag \<open>ok\<close> and a body, which \<open>response.json()\<close> parses or
  rejects (\<open>None\<close>).  The request URL and the dates in it are not part of the model.
\<close>

datatype response = Response (ok: bool) (json: "jsval option")

datatype exchange = Rejected | Resolved response

text \<open>The loop over the days of \<open>data.rates\<close>, \<open>acc\<close> being the array \<open>rates\<close>.\<close>

fun collect_rates :: "jsval \<Rightarrow> string \<Rightarrow> string list \<Rightarrow> jsnum list \<Rightarrow> jsnum list" where
  "collect_rates rates targetCurrency [] acc = acc"
| "collect_rates rates targetCurrency (date # dates) acc =
     (let dayRates = member rates date
      in if \<not> truthy dayRates \<or> js_typeof dayRates \<noteq> ''object''
         then collect_rates rates targetCurrency dates acc
         else (case member dayRates targetCurrency of
                 Number rateForDay \<Rightarrow>
                   collect_rates rates targetCurrency dates (acc @ [rateForDay])
               | _ \<Rightarrow> collect_rates rates targetCurrency dates acc))"

text \<open>The \<open>try\<close> block of \<open>fetchHistoricalRates\<close>, a throw being \<open>Inl\<close>.\<close>

definition fetchHistoricalRates_try :: "exchange \<Rightarrow> string \<Rightarrow> error + jsnum list" where
  "fetchHistoricalRates_try x targetCurrency =
     (case x of
        Rejected \<Rightarrow> Inl FetchRejected
      | Resolved response \<Rightarrow>
          if \<not> ok response then Inl (Error ''Failed to fetch historical data'')
          else (case json response of
                  None \<Rightarrow> Inl JsonRejected
                | Some data \<Rightarrow>
                    if \<not> truthy data \<or> js_typeof data \<noteq> ''object''
                       \<or> \<not> truthy (member data ''rates'')
                       \<or> js_typeof (member data ''rates'') \<noteq> ''object''
                    then Inr []
                    else Inr (collect_rates (member data ''rates'') targetCurrency
                                (keys_of (member data ''rates'')) [])))"

text \<open>The \<open>catch\<close> block returns the empty array.\<close>

definition fetchHistoricalRates :: "exchange \<Rightarrow> string \<Rightarrow> error + jsnum list" where
  "fetchHistoricalRates x targetCurrency =
     (case fetchHistoricalRates_try x targetCurrency of
        Inl e \<Rightarrow> Inr []
      | Inr rates \<Rightarrow> Inr rates)"

text \<open>\<open>fetchCurrentRate\<close> logs and throws again whatever its \<open>try\<close> block throws.\<close>

definition fetchCurrentRate :: "exchange \<Rightarrow> string \<Rightarrow> error + jsval" where
  "fetchCurrentRate x targetCurrency =
     (case x of
        Rejected \<Rightarrow> Inl FetchRejected
      | Resolved response \<Rightarrow>
          if \<not> ok response then Inl (Error ''Failed to fetch current rate'')
          else (case json response of
                  None \<Rightarrow> Inl JsonRejected
                | Some data \<Rightarrow>
                    (case member_or_throw data ''rates'' of
                       Inl e \<Rightarrow> Inl e
                     | Inr rates \<Rightarrow> member_or_throw rates targetCurrency)))"

text \<open>
  The rate of a day as the specification describes it: the entry of the day is an object
  and its value for the quote currency is a number; any other day is skipped.
\<close>

definition valid_day_rate :: "string \<Rightarrow> jsval \<Rightarrow> jsnum option" where
  "valid_day_rate targetCurrency dayRates =
     (if truthy dayRates \<and> js_typeof dayRates = ''object'' then
        (case member dayRates targetCurrency of Number n \<Rightarrow> Some n | _ \<Rightarrow> None)
      else None)"

text \<open>The running sum of a series incurs no rounding: every element is finite and the
  floating-point sum is the exact sum of the values.\<close>

definition exact_sum :: "jsnum list \<Rightarrow> bool" where
  "exact_sum rates =
     (list_all is_finite rates \<and> js_sum rates = Fin (sum_list (map val rates)))"

section \<open>The expiring cache\<close>

text \<open>
  \<open>localStorage\<close> holds texts under keys.  A text the cache can meet is represented by
  what \<open>getCachedData\<close> makes of it: \<open>Entry data timestamp\<close> is a text that parses to an
  object with these two members (\<open>data\<close> is \<open>undefined\<close> when the member is missing, the
  timestamp is a number of milliseconds); \<open>Unreadable\<close> is a text on which \<open>JSON.parse\<close>
  or the destructuring throws.  The state of the system has, beside the storage, two flags
  for a storage that throws on reading or on writing, the clock that \<open>Date.now()\<close> reads,
  and a count of the invocations of fetch functions.
\<close>

datatype item = Unreadable | Entry jsval int

record state =
  items :: "string \<rightharpoonup> item"
  readable :: bool
  writable :: bool
  clock :: int
  fetches :: nat

definition CACHE_DURATION :: int where
  "CACHE_DURATION = 10 * 60 * 1000"

text \<open>The result \<open>null\<close> stands for "absent".  An expired entry is removed.\<close>

definition getCachedData :: "string \<Rightarrow> state \<Rightarrow> jsval \<times> state" where
  "getCachedData key s =
     (if \<not> readable s then (Null, s)
      else (case items s key of
              None \<Rightarrow> (Null, s)
            | Some Unreadable \<Rightarrow> (Null, s)
            | Some (Entry data timestamp) \<Rightarrow>
                if clock s - timestamp < CACHE_DURATION then (data, s)
                else (Null, s\<lparr>items := (items s)(key := None)\<rparr>)))"

text \<open>A failed write is logged and otherwise ignored.\<close>

definition setCachedData :: "string \<Rightarrow> jsval \<Rightarrow> state \<Rightarrow> state" where
  "setCachedData key data s =
     (if writable s then s\<lparr>items := (items s)(key \<mapsto> Entry (json_member data) (clock s))\<rparr>
      else s)"

text \<open>
  A fetch function, called at some time, settles with a value or throws, after some
  milliseconds.
\<close>

type_synonym fetchFunction = "int \<Rightarrow> (error + jsval) \<times> nat"

definition fetchWithCache :: "string \<Rightarrow> fetchFunction \<Rightarrow> state \<Rightarrow> (error + jsval) \<times> state" where
  "fetchWithCache cacheKey fetchFunction s =
     (case getCachedData cacheKey s of
        (cached, s1) \<Rightarrow>
          if cached \<noteq> Null then (Inr cached, s1)
          else (case fetchFunction (clock s1) of
                  (result, duration) \<Rightarrow>
                    let s2 = s1\<lparr>clock := clock s1 + int duration,
                                fetches := Suc (fetches s1)\<rparr>
                    in (case result of
                          Inl e \<Rightarrow> (Inl e, s2)
                        | Inr data \<Rightarrow> (Inr data, setCachedData cacheKey data s2))))"

text \<open>Time passing, and a sequence of calls for one key, each after a wait.\<close>

definition elapse :: "nat \<Rightarrow> state \<Rightarrow> state" where
  "elapse ms s = s\<lparr>clock := clock s + int ms\<rparr>"

fun repeat_fetch :: "string \<Rightarrow> (nat \<times> fetchFunction) list \<Rightarrow> state \<Rightarrow> state" where
  "repeat_fetch key [] s = s"
| "repeat_fetch key ((wait, f) # calls) s =
     repeat_fetch key calls (snd (fetchWithCache key f (elapse wait s)))"

text \<open>A fetch function that always settles the same way, and an empty storage.\<close>

definition always :: "error + jsval \<Rightarrow> nat \<Rightarrow> fetchFunction" where
  "always result duration = (\<lambda>t. (result, duration))"

definition empty_storage :: state where
  "empty_storage =
     \<lparr>items = Map.empty, readable = True, writable = True, clock = 0, fetches = 0\<rparr>"

text \<open>The settled value is one that a later read of the cache returns as present.\<close>

definition served_again :: "error + jsval \<Rightarrow> bool" where
  "served_again result = (case result of Inl e \<Rightarrow> False | Inr v \<Rightarrow> json_member v \<noteq> Null)"

section \<open>Printing numbers\<close>

text \<open>
  \<open>Number::toString\<close> for a finite \<open>a \<ge> 10\<^sup>2\<^sup>1\<close>: the shortest decimal \<open>s \<times> 10\<^sup>n\<^sup>-\<^sup>k\<close>, with \<open>k\<close>
  digits \<open>s\<close>, that rounds to \<open>a\<close>; among those of the same length the closest to \<open>a\<close>,
  and of two equally close the even one.  It is written in exponential notation.
\<close>

definition decimal_candidates :: "rat \<Rightarrow> nat \<Rightarrow> (int \<times> nat) list" where
  "decimal_candidates a k =
     (let n0 = length (decimal \<lfloor>a\<rfloor>)
      in [(s, n). n \<leftarrow> [n0, n0 + 1],
                  s \<leftarrow> [\<lfloor>a / 10 ^ (n - k)\<rfloor>, \<lfloor>a / 10 ^ (n - k)\<rfloor> + 1],
                  10 ^ (k - 1) \<le> s \<and> s < 10 ^ k
                  \<and> round_double (of_int s * 10 ^ (n - k)) = Fin a])"

definition closer :: "rat \<Rightarrow> nat \<Rightarrow> int \<times> nat \<Rightarrow> int \<times> nat \<Rightarrow> int \<times> nat" where
  "closer a k c c' =
     (let d = \<bar>of_int (fst c) * 10 ^ (snd c - k) - a\<bar>;
          d' = \<bar>of_int (fst c') * 10 ^ (snd c' - k) - a\<bar>
      in if d' < d \<or> (d' = d \<and> odd (fst c) \<and> even (fst c')) then c' else c)"

definition shortest_decimal :: "rat \<Rightarrow> int \<times> nat \<times> nat" where
  "shortest_decimal a =
     (case List.find (\<lambda>k. decimal_candidates a k \<noteq> []) [1 ..< 18] of
        Some k \<Rightarrow>
          (case foldl (closer a k) (hd (decimal_candidates a k)) (decimal_candidates a k) of
             (s, n) \<Rightarrow> (s, n, k))
      | None \<Rightarrow>
          (\<lfloor>a / 10 ^ (length (decimal \<lfloor>a\<rfloor>) - 17)\<rfloor>, length (decimal \<lfloor>a\<rfloor>), 17))"

definition exponential :: "rat \<Rightarrow> string" where
  "exponential a =
     (case shortest_decimal a of
        (s, n, k) \<Rightarrow>
          (if k = 1 then decimal s
           else [hd (decimal s)] @ ''.'' @ tl (decimal s)) @ ''e+'' @ decimal (int n - 1))"

text \<open>The digits of \<open>n\<close> with a point before the last \<open>f\<close> of them.\<close>

definition fixed_point :: "int \<Rightarrow> nat \<Rightarrow> string" where
  "fixed_point n f =
     (let m = decimal n;
          m' = (if length m \<le> f then replicate (f + 1 - length m) CHR ''0'' @ m else m);
          k = length m'
      in if f = 0 then m else take (k - f) m' @ ''.'' @ drop (k - f) m')"

text \<open>\<open>x.toFixed(f)\<close>: the integer \<open>n\<close> with \<open>n / 10\<^sup>f\<close> nearest to \<open>\<bar>x\<bar>\<close>, the larger of
  two.\<close>

definition nearest_fixed :: "rat \<Rightarrow> nat \<Rightarrow> int" where
  "nearest_fixed a f = \<lfloor>a * 10 ^ f + 1 / 2\<rfloor>"

definition toFixed :: "jsnum \<Rightarrow> nat \<Rightarrow> string" where
  "toFixed x f =
     (case x of
        NaN \<Rightarrow> ''NaN''
      | PosInf \<Rightarrow> ''Infinity''
      | NegInf \<Rightarrow> ''-Infinity''
      | NegZero \<Rightarrow> fixed_point 0 f
      | Fin r \<Rightarrow>
          (if r < 0 then ''-'' else '''') @
          (if 10 ^ 21 \<le> \<bar>r\<bar> then exponential \<bar>r\<bar>
           else fixed_point (nearest_fixed \<bar>r\<bar> f) f))"

section \<open>The page\<close>

text \<open>
  The document is the map from ids to elements; of an element the program touches the
  text, the \<open>display\<close> style and the class list.  A character outside ASCII is written
  \<open><U+hhhh>\<close> with its code point.
\<close>

record element =
  textContent :: string
  display :: string
  classList :: "string list"

type_synonym dom = "string \<rightharpoonup> element"

definition classList_remove :: "string list \<Rightarrow> string list \<Rightarrow> string list" where
  "classList_remove names classes = filter (\<lambda>c. c \<notin> set names) classes"

definition classList_add :: "string \<Rightarrow> string list \<Rightarrow> string list" where
  "classList_add name classes = (if name \<in> set classes then classes else classes @ [name])"

definition WEATHER :: "(string \<times> string \<times> string list) list" where
  "WEATHER =
     [(''sunny'',
        (''<U+2600><U+FE0F>'',
         [''<U+826F><U+3044><U+30BF><U+30A4><U+30DF><U+30F3><U+30B0><U+3067><U+3059><U+3002><U+4ECA><U+65E5><U+306F><U+66FF><U+3048><U+6642><U+304B><U+3082><U+3057><U+308C><U+307E><U+305B><U+3093><U+3002>'',
          ''<U+5E73><U+5747><U+3088><U+308A><U+6709><U+5229><U+306A><U+30EC><U+30FC><U+30C8><U+3067><U+3059><U+3002><U+691C><U+8A0E><U+3057><U+3066><U+307F><U+3066><U+306F><U+FF1F>'',
          ''<U+4ECA><U+65E5><U+306E><U+30EC><U+30FC><U+30C8><U+306F><U+597D><U+8ABF><U+3067><U+3059><U+3002><U+30C1><U+30E3><U+30F3><U+30B9><U+304B><U+3082><U+3002>''])),
      (''cloudy'',
        (''<U+26C5>'',
         [''<U+5E73><U+5747><U+7684><U+306A><U+30EC><U+30FC><U+30C8><U+3067><U+3059><U+3002><U+6025><U+304E><U+3067><U+306A><U+3051><U+308C><U+3070><U+69D8><U+5B50><U+898B><U+3082><U+3002>'',
          ''<U+6A19><U+6E96><U+7684><U+306A><U+6C34><U+6E96><U+3067><U+3059><U+3002><U+7126><U+3089><U+305A><U+5224><U+65AD><U+3057><U+307E><U+3057><U+3087><U+3046><U+3002>'',
          ''<U+5E73><U+5747><U+7684><U+306A><U+30BF><U+30A4><U+30DF><U+30F3><U+30B0><U+3067><U+3059><U+3002><U+843D><U+3061><U+7740><U+3044><U+3066><U+691C><U+8A0E><U+3092><U+3002>''])),
      (''rainy'',
        (''<U+1F327><U+FE0F>'',
         [''<U+5E73><U+5747><U+3088><U+308A><U+4E0D><U+5229><U+306A><U+30EC><U+30FC><U+30C8><U+3067><U+3059><U+3002><U+5F85><U+3064><U+306E><U+3082><U+4E00><U+3064><U+306E><U+624B><U+3002>'',
          ''<U+4ECA><U+65E5><U+306F><U+69D8><U+5B50><U+898B><U+304C><U+3088><U+3044><U+304B><U+3082><U+3057><U+308C><U+307E><U+305B><U+3093><U+3002>'',
          ''<U+5C11><U+3057><U+5F85><U+3063><U+3066><U+307F><U+308B><U+306E><U+3082><U+3042><U+308A><U+304B><U+3082><U+3057><U+308C><U+307E><U+305B><U+3093><U+3002>'']))]"

text \<open>
  \<open>comments[Math.floor(random * comments.length)]\<close>, with \<open>random\<close> the draw of
  \<open>Math.random()\<close>.  Outside the array the element is \<open>undefined\<close>, which \<open>textContent\<close>
  takes as the empty text.
\<close>

definition pick :: "string list \<Rightarrow> jsnum \<Rightarrow> string" where
  "pick comments x =
     (if is_finite x \<and> 0 \<le> \<lfloor>val x\<rfloor> \<and> \<lfloor>val x\<rfloor> < int (length comments)
      then comments ! nat \<lfloor>val x\<rfloor> else [])"

definition getComment :: "jsnum \<Rightarrow> string \<Rightarrow> error + string" where
  "getComment random weatherType =
     (case map_of WEATHER weatherType of
        None \<Rightarrow> Inl TypeError
      | Some w \<Rightarrow> Inr (pick (snd w) (js_mul random (Fin (of_nat (length (snd w)))))))"

text \<open>The text and the classes that \<open>updateCurrencyDisplay\<close> gives the element \<open>diffEl\<close>.\<close>

definition update_diff :: "jsnum \<Rightarrow> jsnum \<Rightarrow> element \<Rightarrow> element" where
  "update_diff rate avgRate diffEl =
     (if js_strict_eq avgRate (Fin 0) then
        diffEl\<lparr>textContent := ''N/A'',
               classList := classList_remove [''positive'', ''negative''] (classList diffEl)\<rparr>
      else
        let difference = js_sub rate avgRate;
            percentDiff = toFixed (js_mul (js_div difference avgRate) (Fin 100)) 2;
            sign = (if js_ge difference (Fin 0) then ''+'' else '''');
            removed = classList_remove [''positive'', ''negative''] (classList diffEl)
        in diffEl\<lparr>textContent := sign @ percentDiff @ ''%'',
                  classList :=
                    (if js_gt difference (Fin 0) then classList_add ''positive'' removed
                     else if js_lt difference (Fin 0) then classList_add ''negative'' removed
                     else removed)\<rparr>)"

definition updateCurrencyDisplay ::
  "string \<Rightarrow> jsnum \<Rightarrow> jsnum \<Rightarrow> string \<Rightarrow> jsnum \<Rightarrow> dom \<Rightarrow> error + dom" where
  "updateCurrencyDisplay prefix rate avgRate weatherType random doc =
     (if doc (prefix @ ''-icon'') = None \<or> doc (prefix @ ''-rate'') = None
         \<or> doc (prefix @ ''-diff'') = None \<or> doc (prefix @ ''-comment'') = None
      then Inr doc
      else
        (case map_of WEATHER weatherType of
           None \<Rightarrow> Inl TypeError
         | Some w \<Rightarrow>
             let icon = the (doc (prefix @ ''-icon''));
                 rateEl = the (doc (prefix @ ''-rate''));
                 diffEl = the (doc (prefix @ ''-diff''));
                 commentEl = the (doc (prefix @ ''-comment''));
                 displayRate =
                   (if prefix = ''jpy'' \<and> \<not> js_strict_eq rate (Fin 0)
                    then js_div (Fin 1) rate else rate);
                 currencySymbol =
                   (if prefix = ''jpy'' then '' [<U+1F4B4>/<U+1F4B6>]''
                    else '' [<U+1F4B6>/<U+1F4B5>]'');
                 doc1 = doc(prefix @ ''-icon'' \<mapsto> icon\<lparr>textContent := fst w\<rparr>);
                 doc2 = doc1(prefix @ ''-rate'' \<mapsto>
                   rateEl\<lparr>textContent :=
                     toFixed displayRate (if prefix = ''jpy'' then 2 else 4) @ currencySymbol\<rparr>);
                 doc3 = doc2(prefix @ ''-diff'' \<mapsto> update_diff rate avgRate diffEl)
             in (case getComment random weatherType of
                   Inl e \<Rightarrow> Inl e
                 | Inr comment \<Rightarrow>
                     Inr (doc3(prefix @ ''-comment'' \<mapsto> commentEl\<lparr>textContent := comment\<rparr>)))))"

text \<open>An assignment to a member of an element that \<open>getElementById\<close> did not find throws.\<close>

definition set_display :: "string \<Rightarrow> string \<Rightarrow> dom \<Rightarrow> error + dom" where
  "set_display ident v doc =
     (case doc ident of
        None \<Rightarrow> Inl TypeError
      | Some e \<Rightarrow> Inr (doc(ident \<mapsto> e\<lparr>display := v\<rparr>)))"

definition set_textContent :: "string \<Rightarrow> string \<Rightarrow> dom \<Rightarrow> error + dom" where
  "set_textContent ident v doc =
     (case doc ident of
        None \<Rightarrow> Inl TypeError
      | Some e \<Rightarrow> Inr (doc(ident \<mapsto> e\<lparr>textContent := v\<rparr>)))"

section \<open>The refresh cycle\<close>

text \<open>
  The network answers the latest-rate request and the time-series request for a base
  currency, each with an exchange and the milliseconds it takes.  The four fetch
  functions of \<open>initApp\<close> are closures over it.
\<close>

record network =
  latest :: "string \<Rightarrow> exchange \<times> nat"
  history :: "string \<Rightarrow> exchange \<times> nat"

definition current_fetch :: "network \<Rightarrow> string \<Rightarrow> fetchFunction" where
  "current_fetch net baseCurrency =
     (\<lambda>t. (fetchCurrentRate (fst (latest net baseCurrency)) ''EUR'',
            snd (latest net baseCurrency)))"

definition historical_fetch :: "network \<Rightarrow> string \<Rightarrow> fetchFunction" where
  "historical_fetch net baseCurrency =
     (\<lambda>t. (case fetchHistoricalRates (fst (history net baseCurrency)) ''EUR'' of
              Inl e \<Rightarrow> Inl e
            | Inr rates \<Rightarrow> Inr (Arr (map Number rates)),
            snd (history net baseCurrency)))"

text \<open>
  \<open>Promise.all\<close> over the four calls of \<open>fetchWithCache\<close>.  Each call reads the cache and
  starts its fetch at once, at the time \<open>t0\<close> of the call of \<open>initApp\<close>, and writes the
  cache when its own fetch has settled; the keys differ, so the writes do not interfere.
  The promise rejects when one of the four does.  The clock ends where the last fetch
  settles.
\<close>

fun promise_all ::
  "error + jsval \<Rightarrow> error + jsval \<Rightarrow> error + jsval \<Rightarrow> error + jsval
     \<Rightarrow> error + jsval \<times> jsval \<times> jsval \<times> jsval" where
  "promise_all (Inr a) (Inr b) (Inr c) (Inr d) = Inr (a, b, c, d)"
| "promise_all (Inl e) _ _ _ = Inl e"
| "promise_all _ (Inl e) _ _ = Inl e"
| "promise_all _ _ (Inl e) _ = Inl e"
| "promise_all _ _ _ (Inl e) = Inl e"

definition fetch_all ::
  "network \<Rightarrow> state \<Rightarrow> (error + jsval \<times> jsval \<times> jsval \<times> jsval) \<times> state" where
  "fetch_all net s =
     (let t0 = clock s;
          (r1, s1) = fetchWithCache ''jpy-current'' (current_fetch net ''JPY'') s;
          (r2, s2) = fetchWithCache ''jpy-historical'' (historical_fetch net ''JPY'')
                       (s1\<lparr>clock := t0\<rparr>);
          (r3, s3) = fetchWithCache ''usd-current'' (current_fetch net ''USD'')
                       (s2\<lparr>clock := t0\<rparr>);
          (r4, s4) = fetchWithCache ''usd-historical'' (historical_fetch net ''USD'')
                       (s3\<lparr>clock := t0\<rparr>)
      in (promise_all r1 r2 r3 r4,
          s4\<lparr>clock := max (max (clock s1) (clock s2)) (max (clock s3) (clock s4))\<rparr>))"

text \<open>
  The arithmetic of the cycle is modelled for payloads of the types of the data model: a
  current rate that is a number, a series that is an array of numbers.  For a payload of
  another type \<open>as_number\<close> and \<open>historicalForAvg\<close> give \<open>None\<close>, and so does \<open>initApp\<close>.
  \<open>historicalForAvg\<close> is the series the average is taken of: the historical series, or
  the current rate alone when that is not an array or is empty.
\<close>

definition as_number :: "jsval \<Rightarrow> jsnum option" where
  "as_number v = (case v of Number n \<Rightarrow> Some n | _ \<Rightarrow> None)"

definition historicalForAvg :: "jsnum \<Rightarrow> jsval \<Rightarrow> jsnum list option" where
  "historicalForAvg rate historical =
     (case historical of
        Arr xs \<Rightarrow>
          if xs \<noteq> [] then
            (if list_all (\<lambda>v. as_number v \<noteq> None) xs then Some (map (the \<circ> as_number) xs)
             else None)
          else Some [rate]
      | _ \<Rightarrow> Some [rate])"

text \<open>The statements of the \<open>try\<close> block after the fetches; a throw leaves the document
  as it is at that point.\<close>

definition render ::
  "jsnum \<Rightarrow> jsnum list \<Rightarrow> jsnum \<Rightarrow> jsnum list \<Rightarrow> jsnum \<Rightarrow> jsnum \<Rightarrow> string \<Rightarrow> dom
     \<Rightarrow> error option \<times> dom" where
  "render jpyRate jpyHistoricalForAvg usdRate usdHistoricalForAvg random1 random2 now doc =
     (let jpyAvg = calculateAverage jpyHistoricalForAvg;
          usdAvg = calculateAverage usdHistoricalForAvg;
          jpyWeather = determineWeather jpyRate jpyAvg;
          usdWeather = determineWeather usdRate usdAvg
      in case updateCurrencyDisplay ''jpy'' jpyRate jpyAvg jpyWeather random1 doc of
           Inl e \<Rightarrow> (Some e, doc)
         | Inr doc1 \<Rightarrow>
        (case updateCurrencyDisplay ''usd'' usdRate usdAvg usdWeather random2 doc1 of
           Inl e \<Rightarrow> (Some e, doc1)
         | Inr doc2 \<Rightarrow>
        (case set_display ''loading'' ''none'' doc2 of
           Inl e \<Rightarrow> (Some e, doc2)
         | Inr doc3 \<Rightarrow>
        (case set_display ''content'' ''block'' doc3 of
           Inl e \<Rightarrow> (Some e, doc3)
         | Inr doc4 \<Rightarrow>
        (case set_textContent ''update-time'' (''<U+66F4><U+65B0>: '' @ now) doc4 of
           Inl e \<Rightarrow> (Some e, doc4)
         | Inr doc5 \<Rightarrow> (None, doc5))))))"

text \<open>The \<open>catch\<close> block; a throw in it rejects the promise of \<open>initApp\<close>.\<close>

definition show_error :: "dom \<Rightarrow> error option \<times> dom" where
  "show_error doc =
     (case set_display ''loading'' ''none'' doc of
        Inl e \<Rightarrow> (Some e, doc)
      | Inr doc1 \<Rightarrow>
          (case set_display ''error'' ''block'' doc1 of
             Inl e \<Rightarrow> (Some e, doc1)
           | Inr doc2 \<Rightarrow> (None, doc2)))"

text \<open>
  \<open>initApp\<close>, given the network, the two draws of \<open>Math.random()\<close> and the host's
  \<open>toLocaleString\<close>: the error its promise rejects with, if any, the document and the
  state afterwards.
\<close>

definition initApp ::
  "network \<Rightarrow> jsnum \<Rightarrow> jsnum \<Rightarrow> (int \<Rightarrow> string) \<Rightarrow> state \<Rightarrow> dom
     \<Rightarrow> (error option \<times> dom \<times> state) option" where
  "initApp net random1 random2 toLocaleString s doc =
     (case fetch_all net s of
        (Inl e, s') \<Rightarrow> (case show_error doc of (r, doc') \<Rightarrow> Some (r, doc', s'))
      | (Inr (jpyRate, jpyHistorical, usdRate, usdHistorical), s') \<Rightarrow>
          (case (as_number jpyRate, as_number usdRate) of
             (Some jpy, Some usd) \<Rightarrow>
               (case (historicalForAvg jpy jpyHistorical, historicalForAvg usd usdHistorical) of
                  (Some jpyHistoricalForAvg, Some usdHistoricalForAvg) \<Rightarrow>
                    (case render jpy jpyHistoricalForAvg usd usdHistoricalForAvg
                            random1 random2 (toLocaleString (clock s')) doc of
                       (None, doc') \<Rightarrow> Some (None, doc', s')
                     | (Some e, doc') \<Rightarrow>
                         (case show_error doc' of (r, doc'') \<Rightarrow> Some (r, doc'', s')))
                | _ \<Rightarrow> None)
           | _ \<Rightarrow> None))"

text \<open>A document with every element the program looks up, all blank.\<close>

definition blank :: element where
  "blank = \<lparr>textContent = [], display = [], classList = []\<rparr>"

definition blank_page :: dom where
  "blank_page =
     map_of (map (\<lambda>i. (i, blank))
       [''loading'', ''error'', ''content'', ''update-time'',
        ''jpy-icon'', ''jpy-rate'', ''jpy-diff'', ''jpy-comment'',
        ''usd-icon'', ''usd-rate'', ''usd-diff'', ''usd-comment''])"

text \<open>The four elements of a pair are in the document.\<close>

definition pair_elements :: "string \<Rightarrow> dom \<Rightarrow> bool" where
  "pair_elements prefix doc =
     (doc (prefix @ ''-icon'') \<noteq> None \<and> doc (prefix @ ''-rate'') \<noteq> None
      \<and> doc (prefix @ ''-diff'') \<noteq> None \<and> doc (prefix @ ''-comment'') \<noteq> None)"

text \<open>The text of an element of the document, if it is there.\<close>

definition text_of :: "dom \<Rightarrow> string \<Rightarrow> string option" where
  "text_of doc ident = map_option textContent (doc ident)"

text \<open>Sample networks: every request answered with a rate of one half and an empty
  series, and the same with the latest-rate request for JPY rejected.\<close>

definition rate_body :: jsval where
  "rate_body = Obj [(''rates'', Obj [(''EUR'', Number (Fin (1 / 2)))])]"

definition empty_series_body :: jsval where
  "empty_series_body = Obj [(''rates'', Obj [])]"

definition quiet_network :: network where
  "quiet_network =
     \<lparr>latest = (\<lambda>base. (Resolved (Response True (Some rate_body)), 10)),
      history = (\<lambda>base. (Resolved (Response True (Some empty_series_body)), 20))\<rparr>"

definition failing_network :: network where
  "failing_network =
     \<lparr>latest = (\<lambda>base. if base = ''JPY'' then (Rejected, 10)
                        else (Resolved (Response True (Some rate_body)), 10)),
      history = (\<lambda>base. (Resolved (Response True (Some empty_series_body)), 20))\<rparr>"

section \<open>The first copy of the script\<close>

text \<open>
  The source holds two copies of the script.  The definitions above follow the second
  one, which has the cache.  The first copy has no cache, and three of its functions
  differ from their namesakes: \<open>calculateAverage\<close> has no guard for the empty series,
  \<open>fetchHistoricalRates\<close> does not validate the days, and \<open>updateCurrencyDisplay\<close> has
  no guard for a zero average.
\<close>

definition calculateAverage_first :: "jsnum list \<Rightarrow> jsnum" where
  "calculateAverage_first rates = js_div (js_sum rates) (Fin (of_nat (length rates)))"

fun collect_rates_first ::
  "jsval \<Rightarrow> string \<Rightarrow> string list \<Rightarrow> jsval list \<Rightarrow> error + jsval list" where
  "collect_rates_first rates targetCurrency [] acc = Inr acc"
| "collect_rates_first rates targetCurrency (date # dates) acc =
     (case member_or_throw (member rates date) targetCurrency of
        Inl e \<Rightarrow> Inl e
      | Inr rateForDay \<Rightarrow> collect_rates_first rates targetCurrency dates (acc @ [rateForDay]))"

definition fetchHistoricalRates_first :: "exchange \<Rightarrow> string \<Rightarrow> error + jsval list" where
  "fetchHistoricalRates_first x targetCurrency =
     (case (case x of
              Rejected \<Rightarrow> Inl FetchRejected
            | Resolved response \<Rightarrow>
                if \<not> ok response then Inl (Error ''Failed to fetch historical data'')
                else (case json response of
                        None \<Rightarrow> Inl JsonRejected
                      | Some data \<Rightarrow>
                          (case member_or_throw data ''rates'' of
                             Inl e \<Rightarrow> Inl e
                           | Inr rates \<Rightarrow>
                               collect_rates_first rates targetCurrency (keys_of rates) [])))
      of Inl e \<Rightarrow> Inr []
       | Inr rates \<Rightarrow> Inr rates)"

definition update_diff_first :: "jsnum \<Rightarrow> jsnum \<Rightarrow> element \<Rightarrow> element" where
  "update_diff_first rate avgRate diffEl =
     (let difference = js_sub rate avgRate;
          percentDiff = toFixed (js_mul (js_div difference avgRate) (Fin 100)) 2;
          sign = (if js_ge difference (Fin 0) then ''+'' else '''');
          removed = classList_remove [''positive'', ''negative''] (classList diffEl)
      in diffEl\<lparr>textContent := sign @ percentDiff @ ''%'',
                classList :=
                  (if js_gt difference (Fin 0) then classList_add ''positive'' removed
                   else if js_lt difference (Fin 0) then classList_add ''negative'' removed
                   else removed)\<rparr>)"

section \<open>Properties of the numbers\<close>

lemma THRESHOLD_SUNNY_value:
  "THRESHOLD_SUNNY = Fin (5764607523034235 / 576460752303423488)"
  by code_simp

lemma THRESHOLD_RAINY_value:
  "THRESHOLD_RAINY = Fin (- (5764607523034235 / 576460752303423488))"
  by code_simp

lemma round_double_zero [simp]: "round_double 0 = Fin 0"
  by (simp add: round_double_def)

lemma js_le_refl: "x \<noteq> NaN \<Longrightarrow> js_le x x"
  by (cases x) simp_all

lemma bands_disjoint:
  "\<not> (js_ge d THRESHOLD_SUNNY \<and> js_le d THRESHOLD_RAINY)"
  by (cases d) (simp_all add: THRESHOLD_SUNNY_value THRESHOLD_RAINY_value js_ge_def)

lemma js_add_zero_double:
  "is_double r \<Longrightarrow> r \<noteq> NegZero \<Longrightarrow> js_add (Fin 0) r = r"
  by (cases r) simp_all

lemma js_div_one_double:
  "is_double r \<Longrightarrow> js_div r (Fin 1) = r"
  by (cases r) (simp_all add: js_div_def signed_zero_def signed_inf_def)

lemma calculateAverage_single:
  "is_double r \<Longrightarrow> r \<noteq> NegZero \<Longrightarrow> calculateAverage [r] = r"
  by (simp add: calculateAverage_def js_sum_def js_add_zero_double js_div_one_double)

lemma calculateAverage_single_NegZero: "calculateAverage [NegZero] = Fin 0"
  by (simp add: calculateAverage_def js_sum_def js_div_def signed_zero_def)

lemma sum_list_val_mset:
  "mset xs = mset ys \<Longrightarrow> sum_list (map val xs) = sum_list (map val ys)"
proof -
  assume "mset xs = mset ys"
  then have "mset (map val xs) = mset (map val ys)"
    by simp
  then have "sum_mset (mset (map val xs)) = sum_mset (mset (map val ys))"
    by simp
  then show ?thesis
    by (simp only: sum_mset_sum_list)
qed

section \<open>Classification\<close>

text \<open>
  C1.  With \<open>d\<close> the quotient \<open>(current - average) / average\<close> as the program computes
  it, \<open>determineWeather\<close> answers \<open>sunny\<close> exactly when \<open>d \<ge> 0.01\<close>, \<open>rainy\<close> exactly
  when \<open>d \<le> -0.01\<close> and \<open>cloudy\<close> exactly when neither holds; both thresholds are
  inclusive: \<open>d\<close> equal to the threshold \<open>0.01\<close> gives \<open>sunny\<close>, \<open>d\<close> equal to \<open>-0.01\<close>
  gives \<open>rainy\<close>.  The average is any nonzero number.
\<close>

theorem determineWeather_bands:
  assumes "\<not> is_zero avgRate"
  shows "(determineWeather currentRate avgRate = ''sunny'' \<longleftrightarrow>
            js_ge (relative_difference currentRate avgRate) THRESHOLD_SUNNY)
       \<and> (determineWeather currentRate avgRate = ''rainy'' \<longleftrightarrow>
            js_le (relative_difference currentRate avgRate) THRESHOLD_RAINY)
       \<and> (determineWeather currentRate avgRate = ''cloudy'' \<longleftrightarrow>
            \<not> js_ge (relative_difference currentRate avgRate) THRESHOLD_SUNNY
            \<and> \<not> js_le (relative_difference currentRate avgRate) THRESHOLD_RAINY)
       \<and> (relative_difference currentRate avgRate = THRESHOLD_SUNNY \<longrightarrow>
            determineWeather currentRate avgRate = ''sunny'')
       \<and> (relative_difference currentRate avgRate = THRESHOLD_RAINY \<longrightarrow>
            determineWeather currentRate avgRate = ''rainy'')"
proof -
  let ?d = "relative_difference currentRate avgRate"
  have excl: "\<not> (js_ge ?d THRESHOLD_SUNNY \<and> js_le ?d THRESHOLD_RAINY)"
    by (rule bands_disjoint)
  have sunny: "js_ge THRESHOLD_SUNNY THRESHOLD_SUNNY"
    by (simp add: js_ge_def THRESHOLD_SUNNY_value)
  have rainy: "js_le THRESHOLD_RAINY THRESHOLD_RAINY"
    by (simp add: THRESHOLD_RAINY_value)
  have no_both: "\<not> js_ge THRESHOLD_RAINY THRESHOLD_SUNNY"
    by (simp add: js_ge_def THRESHOLD_SUNNY_value THRESHOLD_RAINY_value)
  show ?thesis
    using excl sunny rainy no_both
    by (auto simp: determineWeather_def Let_def)
qed

theorem determineWeather_bands_witness:
  "\<not> is_zero (Fin 100)
   \<and> relative_difference (Fin 101) (Fin 100) = THRESHOLD_SUNNY
   \<and> determineWeather (Fin 101) (Fin 100) = ''sunny''
   \<and> relative_difference (Fin 99) (Fin 100) = THRESHOLD_RAINY
   \<and> determineWeather (Fin 99) (Fin 100) = ''rainy''"
proof -
  have nz: "\<not> is_zero (Fin 100)"
    by simp
  have up: "relative_difference (Fin 101) (Fin 100) = THRESHOLD_SUNNY"
    by code_simp
  have down: "relative_difference (Fin 99) (Fin 100) = THRESHOLD_RAINY"
    by code_simp
  from determineWeather_bands [OF nz, of "Fin 101"] up
  have "determineWeather (Fin 101) (Fin 100) = ''sunny''"
    by blast
  moreover from determineWeather_bands [OF nz, of "Fin 99"] down
  have "determineWeather (Fin 99) (Fin 100) = ''rainy''"
    by blast
  ultimately show ?thesis
    using nz up down by blast
qed

text \<open>
  C3.  With a zero average \<open>determineWeather\<close> has no guard: the quotient is an infinity
  or NaN, and the answer follows its sign.  At current rate 1 and average 0 the quotient
  is \<open>+Infinity\<close> and the answer is \<open>sunny\<close>, not a fixed fallback.
\<close>

theorem determineWeather_zero_average_sunny:
  "relative_difference (Fin 1) (Fin 0) = PosInf
   \<and> determineWeather (Fin 1) (Fin 0) = ''sunny''"
  by code_simp

lemma determineWeather_zero_average:
  assumes "is_double (Fin c)"
  shows "determineWeather (Fin c) (Fin 0) =
     (if 0 < c then ''sunny'' else if c < 0 then ''rainy'' else ''cloudy'')"
proof -
  have "relative_difference (Fin c) (Fin 0) =
          (if c = 0 then NaN else if c < 0 then NegInf else PosInf)"
    using assms
    by (simp add: relative_difference_def js_sub_def js_div_def signed_inf_def)
  then show ?thesis
    by (simp add: determineWeather_def js_ge_def THRESHOLD_SUNNY_value THRESHOLD_RAINY_value)
qed

section \<open>Averaging\<close>

text \<open>
  C2, as stated, fails: the sum is accumulated from the left in floating point, and a
  reordering changes the roundings.  The series \<open>0.1, 0.2, 0.3\<close> and its reversal have
  different averages.
\<close>

theorem calculateAverage_reorder_counterexample:
  "mset [literal (1 / 10), literal (2 / 10), literal (3 / 10)]
     = mset [literal (3 / 10), literal (2 / 10), literal (1 / 10)]
   \<and> calculateAverage [literal (1 / 10), literal (2 / 10), literal (3 / 10)]
     \<noteq> calculateAverage [literal (3 / 10), literal (2 / 10), literal (1 / 10)]"
proof -
  have "calculateAverage [literal (1 / 10), literal (2 / 10), literal (3 / 10)]
          = Fin (7205759403792795 / 36028797018963968)"
    by code_simp
  moreover have "calculateAverage [literal (3 / 10), literal (2 / 10), literal (1 / 10)]
          = Fin (7205759403792793 / 36028797018963968)"
    by code_simp
  ultimately show ?thesis
    by (simp add: add.commute add.left_commute)
qed

text \<open>
  C2, amended.  \<open>calculateAverage\<close> returns 0 for the empty series and \<open>r\<close> for the
  series \<open>[r]\<close>, for every \<open>r\<close>: NaN for \<open>[NaN]\<close>, and for the negative zero the positive
  one, which \<open>===\<close> takes for the same number.  For a non-empty series it is the
  floating-point quotient of the running sum by the length.  When the running sum incurs
  no rounding, the result is the arithmetic mean rounded once, and it is the same for
  every reordering whose running sum is exact as well.
\<close>

theorem calculateAverage_mean:
  "calculateAverage [] = Fin 0
   \<and> (is_double r \<and> r \<noteq> NaN \<longrightarrow> js_strict_eq (calculateAverage [r]) r)
   \<and> (is_double r \<longrightarrow> calculateAverage [r] = (if r = NegZero then Fin 0 else r))
   \<and> calculateAverage [NaN] = NaN
   \<and> (rates \<noteq> [] \<longrightarrow>
        calculateAverage rates = js_div (js_sum rates) (Fin (of_nat (length rates))))
   \<and> (rates \<noteq> [] \<and> exact_sum rates \<longrightarrow>
        calculateAverage rates
          = round_double (sum_list (map val rates) / of_nat (length rates)))
   \<and> (exact_sum rates \<and> exact_sum rates' \<and> mset rates = mset rates' \<longrightarrow>
        calculateAverage rates = calculateAverage rates')"
proof -
  have empty: "calculateAverage [] = Fin 0"
    by (simp add: calculateAverage_def)
  have single_eq: "calculateAverage [r] = (if r = NegZero then Fin 0 else r)"
    if "is_double r"
    using that by (simp add: calculateAverage_single_NegZero calculateAverage_single)
  have single: "js_strict_eq (calculateAverage [r]) r" if "is_double r" "r \<noteq> NaN"
  proof (cases "r = NegZero")
    case True
    then show ?thesis
      by (simp add: calculateAverage_single_NegZero js_strict_eq_def)
  next
    case False
    with that show ?thesis
      by (simp add: calculateAverage_single js_strict_eq_def js_le_refl)
  qed
  have nan: "calculateAverage [NaN] = NaN"
    by (simp add: calculateAverage_single)
  have mean: "calculateAverage rates
                = round_double (sum_list (map val rates) / of_nat (length rates))"
    if "rates \<noteq> []" "exact_sum rates"
    using that by (simp add: calculateAverage_def exact_sum_def js_div_def signed_zero_def)
  have reorder: "calculateAverage rates = calculateAverage rates'"
    if "exact_sum rates" "exact_sum rates'" "mset rates = mset rates'"
  proof -
    from that(3) have "sum_list (map val rates) = sum_list (map val rates')"
      by (rule sum_list_val_mset)
    with that(1,2) have "js_sum rates = js_sum rates'"
      by (simp add: exact_sum_def)
    moreover from that(3) have "length rates = length rates'"
      by (rule mset_eq_length)
    moreover from that(3) have "rates = [] \<longleftrightarrow> rates' = []"
      by (metis mset_zero_iff)
    ultimately show ?thesis
      by (simp add: calculateAverage_def)
  qed
  have quotient: "calculateAverage rates = js_div (js_sum rates) (Fin (of_nat (length rates)))"
    if "rates \<noteq> []"
    using that by (simp add: calculateAverage_def)
  from empty single single_eq nan quotient mean reorder show ?thesis
    by blast
qed

theorem calculateAverage_mean_witness:
  "is_double (Fin (1 / 2)) \<and> Fin (1 / 2) \<noteq> NaN
   \<and> js_strict_eq (calculateAverage [Fin (1 / 2)]) (Fin (1 / 2))
   \<and> calculateAverage [Fin (1 / 2)] = Fin (1 / 2)
   \<and> [Fin 1, Fin 2, Fin 6] \<noteq> [] \<and> exact_sum [Fin 1, Fin 2, Fin 6]
   \<and> exact_sum [Fin 6, Fin 1, Fin 2]
   \<and> mset [Fin 1, Fin 2, Fin 6] = mset [Fin 6, Fin 1, Fin 2]
   \<and> calculateAverage [Fin 1, Fin 2, Fin 6] = Fin 3
   \<and> calculateAverage [Fin 1, Fin 2, Fin 6] = calculateAverage [Fin 6, Fin 1, Fin 2]"
proof -
  have d: "is_double (Fin (1 / 2))"
    by code_simp
  have n: "Fin (1 / 2) \<noteq> NaN"
    by simp
  have ne: "[Fin 1, Fin 2, Fin 6] \<noteq> []"
    by simp
  have e1: "exact_sum [Fin 1, Fin 2, Fin 6]"
    by code_simp
  have e2: "exact_sum [Fin 6, Fin 1, Fin 2]"
    by code_simp
  have m: "mset [Fin 1, Fin 2, Fin 6] = mset [Fin 6, Fin 1, Fin 2]"
    by (simp add: add.commute add.left_commute)
  have r: "round_double (sum_list (map val [Fin 1, Fin 2, Fin 6])
             / of_nat (length [Fin 1, Fin 2, Fin 6])) = Fin 3"
    by code_simp
  have i: "(if Fin (1 / 2) = NegZero then Fin 0 else Fin (1 / 2)) = Fin (1 / 2)"
    by simp
  note w = calculateAverage_mean [of "Fin (1 / 2)" "[Fin 1, Fin 2, Fin 6]" "[Fin 6, Fin 1, Fin 2]"]
  note single = w [THEN conjunct2, THEN conjunct1]
  note single_eq = w [THEN conjunct2, THEN conjunct2, THEN conjunct1]
  note mean = w [THEN conjunct2, THEN conjunct2, THEN conjunct2, THEN conjunct2,
      THEN conjunct2, THEN conjunct1]
  note reorder = w [THEN conjunct2, THEN conjunct2, THEN conjunct2, THEN conjunct2,
      THEN conjunct2, THEN conjunct2]
  have s: "js_strict_eq (calculateAverage [Fin (1 / 2)]) (Fin (1 / 2))"
    by (rule single [THEN mp]) (intro conjI d n)
  have "calculateAverage [Fin (1 / 2)]
      = (if Fin (1 / 2) = NegZero then Fin 0 else Fin (1 / 2))"
    by (rule single_eq [THEN mp]) (rule d)
  then have q: "calculateAverage [Fin (1 / 2)] = Fin (1 / 2)"
    by (simp only: i)
  have "calculateAverage [Fin 1, Fin 2, Fin 6]
      = round_double (sum_list (map val [Fin 1, Fin 2, Fin 6])
             / of_nat (length [Fin 1, Fin 2, Fin 6]))"
    by (rule mean [THEN mp]) (intro conjI ne e1)
  then have a: "calculateAverage [Fin 1, Fin 2, Fin 6] = Fin 3"
    by (simp only: r)
  have p: "calculateAverage [Fin 1, Fin 2, Fin 6] = calculateAverage [Fin 6, Fin 1, Fin 2]"
    by (rule reorder [THEN mp]) (intro conjI e1 e2 m)
  show ?thesis
    by (intro conjI d n s q ne e1 e2 m a p)
qed

section \<open>Historical rates\<close>

lemma collect_rates_filter:
  assumes "distinct (map fst days)"
  shows "set ds \<subseteq> set days \<Longrightarrow>
         collect_rates (Obj days) tc (map fst ds) acc
           = acc @ List.map_filter (valid_day_rate tc) (map snd ds)"
proof (induction ds arbitrary: acc)
  case Nil
  then show ?case by simp
next
  case (Cons d ds)
  obtain k v where d: "d = (k, v)" by (cases d)
  with Cons.prems assms have "map_of days k = Some v"
    by simp
  then have m: "member (Obj days) k = v" by simp
  from Cons.prems have sub: "set ds \<subseteq> set days" by simp
  show ?case
    using Cons.IH [OF sub] m d
    by (auto simp: valid_day_rate_def Let_def split: jsval.splits)
qed

text \<open>
  C6.  \<open>fetchHistoricalRates\<close> never throws: whatever the exchange, it returns a series.
  A rejected fetch, a status that is not a success and a body that does not parse give
  the empty series.  For a parsed body whose member \<open>rates\<close> is an object of days, the
  series holds, in order, the rate of every day whose entry is an object with a number
  for the quote currency; every other day (entry missing, not an object, value missing or
  not a number) is skipped.  A parsed body without an object under \<open>rates\<close> gives the
  empty series.
\<close>

theorem fetchHistoricalRates_resilient:
  "(\<exists>rates. fetchHistoricalRates x targetCurrency = Inr rates)
   \<and> fetchHistoricalRates Rejected targetCurrency = Inr []
   \<and> fetchHistoricalRates (Resolved (Response False body)) targetCurrency = Inr []
   \<and> fetchHistoricalRates (Resolved (Response True None)) targetCurrency = Inr []
   \<and> (map_of members ''rates'' = Some (Obj days) \<and> distinct (map fst days) \<longrightarrow>
        fetchHistoricalRates (Resolved (Response True (Some (Obj members)))) targetCurrency
          = Inr (List.map_filter (valid_day_rate targetCurrency) (map snd days)))
   \<and> (js_typeof (member data ''rates'') \<noteq> ''object'' \<longrightarrow>
        fetchHistoricalRates (Resolved (Response True (Some data))) targetCurrency = Inr [])"
proof -
  have total: "\<exists>rates. fetchHistoricalRates x targetCurrency = Inr rates"
    by (simp add: fetchHistoricalRates_def split: sum.splits)
  have failed: "fetchHistoricalRates Rejected targetCurrency = Inr []"
    "fetchHistoricalRates (Resolved (Response False body)) targetCurrency = Inr []"
    "fetchHistoricalRates (Resolved (Response True None)) targetCurrency = Inr []"
    by (simp_all add: fetchHistoricalRates_def fetchHistoricalRates_try_def)
  have days: "fetchHistoricalRates (Resolved (Response True (Some (Obj members)))) targetCurrency
          = Inr (List.map_filter (valid_day_rate targetCurrency) (map snd days))"
    if r: "map_of members ''rates'' = Some (Obj days)" and d: "distinct (map fst days)"
  proof -
    have "collect_rates (Obj days) targetCurrency (map fst days) []
            = List.map_filter (valid_day_rate targetCurrency) (map snd days)"
      using collect_rates_filter [OF d, of days targetCurrency "[]"] by simp
    with r show ?thesis
      by (simp add: fetchHistoricalRates_def fetchHistoricalRates_try_def)
  qed
  have malformed: "fetchHistoricalRates (Resolved (Response True (Some data))) targetCurrency
          = Inr []"
    if "js_typeof (member data ''rates'') \<noteq> ''object''"
    using that by (simp add: fetchHistoricalRates_def fetchHistoricalRates_try_def)
  from total failed days malformed show ?thesis
    by blast
qed

theorem fetchHistoricalRates_resilient_witness:
  "map_of [(''base'', Str ''JPY''),
           (''rates'', Obj [(''2024-01-02'', Obj [(''EUR'', Number (Fin (1 / 2)))]),
                            (''2024-01-03'', Obj [(''USD'', Number (Fin 1))]),
                            (''2024-01-04'', Null),
                            (''2024-01-05'', Obj [(''EUR'', Str ''0.5'')]),
                            (''2024-01-08'', Obj [(''EUR'', Number (Fin (1 / 4)))])])] ''rates''
     = Some (Obj [(''2024-01-02'', Obj [(''EUR'', Number (Fin (1 / 2)))]),
                  (''2024-01-03'', Obj [(''USD'', Number (Fin 1))]),
                  (''2024-01-04'', Null),
                  (''2024-01-05'', Obj [(''EUR'', Str ''0.5'')]),
                  (''2024-01-08'', Obj [(''EUR'', Number (Fin (1 / 4)))])])
   \<and> distinct (map fst [(''2024-01-02'', Obj [(''EUR'', Number (Fin (1 / 2)))]),
                  (''2024-01-03'', Obj [(''USD'', Number (Fin 1))]),
                  (''2024-01-04'', Null),
                  (''2024-01-05'', Obj [(''EUR'', Str ''0.5'')]),
                  (''2024-01-08'', Obj [(''EUR'', Number (Fin (1 / 4)))])])
   \<and> fetchHistoricalRates (Resolved (Response True (Some (Obj
         [(''base'', Str ''JPY''),
          (''rates'', Obj [(''2024-01-02'', Obj [(''EUR'', Number (Fin (1 / 2)))]),
                           (''2024-01-03'', Obj [(''USD'', Number (Fin 1))]),
                           (''2024-01-04'', Null),
                           (''2024-01-05'', Obj [(''EUR'', Str ''0.5'')]),
                           (''2024-01-08'', Obj [(''EUR'', Number (Fin (1 / 4)))])])]))))
        ''EUR''
     = Inr [Fin (1 / 2), Fin (1 / 4)]
   \<and> js_typeof (member (Obj [(''message'', Str ''not found'')]) ''rates'') \<noteq> ''object''
   \<and> fetchHistoricalRates
        (Resolved (Response True (Some (Obj [(''message'', Str ''not found'')])))) ''EUR''
     = Inr []"
proof -
  let ?days = "[(''2024-01-02'', Obj [(''EUR'', Number (Fin (1 / 2)))]),
                (''2024-01-03'', Obj [(''USD'', Number (Fin 1))]),
                (''2024-01-04'', Null),
                (''2024-01-05'', Obj [(''EUR'', Str ''0.5'')]),
                (''2024-01-08'', Obj [(''EUR'', Number (Fin (1 / 4)))])]"
  let ?members = "[(''base'', Str ''JPY''), (''rates'', Obj ?days)]"
  have r: "map_of ?members ''rates'' = Some (Obj ?days)"
    by simp
  have d: "distinct (map fst ?days)"
    by simp
  have v: "List.map_filter (valid_day_rate ''EUR'') (map snd ?days)
             = [Fin (1 / 2), Fin (1 / 4)]"
    by (simp add: valid_day_rate_def)
  have t: "js_typeof (member (Obj [(''message'', Str ''not found'')]) ''rates'') \<noteq> ''object''"
    by simp
  note w = fetchHistoricalRates_resilient [where targetCurrency = "''EUR''"
      and members = ?members and days = ?days
      and data = "Obj [(''message'', Str ''not found'')]"]
  note w_days = w [THEN conjunct2, THEN conjunct2, THEN conjunct2, THEN conjunct2,
      THEN conjunct1]
  note w_malformed = w [THEN conjunct2, THEN conjunct2, THEN conjunct2, THEN conjunct2,
      THEN conjunct2]
  have "fetchHistoricalRates (Resolved (Response True (Some (Obj ?members)))) ''EUR''
          = Inr (List.map_filter (valid_day_rate ''EUR'') (map snd ?days))"
    by (rule w_days [THEN mp]) (intro conjI r d)
  then have a: "fetchHistoricalRates (Resolved (Response True (Some (Obj ?members)))) ''EUR''
          = Inr [Fin (1 / 2), Fin (1 / 4)]"
    by (simp only: v)
  have b: "fetchHistoricalRates
        (Resolved (Response True (Some (Obj [(''message'', Str ''not found'')])))) ''EUR''
     = Inr []"
    by (rule w_malformed [THEN mp]) (rule t)
  show ?thesis
    by (intro conjI r d a t b)
qed

section \<open>Cache round trip\<close>

lemma fetchWithCache_flags:
  "readable (snd (fetchWithCache k f s)) = readable s
   \<and> writable (snd (fetchWithCache k f s)) = writable s"
  by (auto simp: fetchWithCache_def getCachedData_def setCachedData_def Let_def
           split: option.splits item.splits prod.splits sum.splits)

lemma fetchWithCache_clock: "clock s \<le> clock (snd (fetchWithCache k f s))"
  by (auto simp: fetchWithCache_def getCachedData_def setCachedData_def Let_def
           split: option.splits item.splits prod.splits sum.splits)

lemma repeat_fetch_clock: "clock s \<le> clock (repeat_fetch k calls s)"
proof (induction calls arbitrary: s)
  case Nil
  then show ?case by simp
next
  case (Cons c calls)
  obtain w f where c: "c = (w, f)" by (cases c)
  have "clock s \<le> clock (elapse w s)"
    by (simp add: elapse_def)
  also have "\<dots> \<le> clock (snd (fetchWithCache k f (elapse w s)))"
    by (rule fetchWithCache_clock)
  also have "\<dots> \<le> clock (repeat_fetch k calls (snd (fetchWithCache k f (elapse w s))))"
    by (rule Cons.IH)
  finally show ?case by (simp add: c)
qed

lemma fetchWithCache_hit:
  assumes "readable s" "items s k = Some (Entry v t)" "v \<noteq> Null"
    and "clock s - t < CACHE_DURATION"
  shows "fetchWithCache k f s = (Inr v, s)"
  using assms by (simp add: fetchWithCache_def getCachedData_def)

lemma repeat_fetch_hits:
  assumes "readable s" "items s k = Some (Entry v t)" "v \<noteq> Null"
    and "clock (repeat_fetch k calls s) - t < CACHE_DURATION"
  shows "fetches (repeat_fetch k calls s) = fetches s"
  using assms
proof (induction calls arbitrary: s)
  case Nil
  then show ?case by simp
next
  case (Cons c calls)
  obtain w f where c: "c = (w, f)" by (cases c)
  let ?s = "elapse w s"
  have r: "readable ?s" and i: "items ?s k = Some (Entry v t)"
    using Cons.prems by (simp_all add: elapse_def)
  have "clock ?s \<le> clock (repeat_fetch k (c # calls) s)"
    using repeat_fetch_clock [of "snd (fetchWithCache k f ?s)" k calls]
      fetchWithCache_clock [of ?s k f] by (simp add: c)
  with Cons.prems(4) have fresh: "clock ?s - t < CACHE_DURATION"
    by simp
  have hit: "fetchWithCache k f ?s = (Inr v, ?s)"
    using r i Cons.prems(3) fresh by (rule fetchWithCache_hit)
  have "fetches (repeat_fetch k calls ?s) = fetches ?s"
    using Cons.prems(4) by (intro Cons.IH r i Cons.prems(3)) (simp add: c hit)
  moreover have "fetches ?s = fetches s"
    by (simp add: elapse_def)
  ultimately show ?case
    by (simp add: c hit)
qed

lemma fetchWithCache_cases:
  assumes "readable s" "writable s" "\<forall>t. served_again (fst (f t))"
  shows "fetchWithCache k f s = (Inr (fst (getCachedData k s)), s) \<and> fst (getCachedData k s) \<noteq> Null
       \<or> (\<exists>v s'. fetchWithCache k f s = (Inr v, s') \<and> readable s' \<and> fetches s' = Suc (fetches s)
             \<and> clock s \<le> clock s' \<and> json_member v \<noteq> Null
             \<and> items s' k = Some (Entry (json_member v) (clock s')))"
proof (cases "fst (getCachedData k s) = Null")
  case False
  obtain c s1 where g: "getCachedData k s = (c, s1)"
    by (cases "getCachedData k s")
  with False have "c \<noteq> Null" by simp
  moreover from this g have "s1 = s"
    by (auto simp: getCachedData_def split: option.splits item.splits if_splits)
  ultimately show ?thesis
    using g by (simp add: fetchWithCache_def)
next
  case True
  obtain s1 where g: "getCachedData k s = (Null, s1)"
    using True by (cases "getCachedData k s") simp
  then have s1: "readable s1" "writable s1" "clock s1 = clock s" "fetches s1 = fetches s"
    using assms(1,2)
    by (auto simp: getCachedData_def split: option.splits item.splits if_splits)
  obtain r d where fr: "f (clock s1) = (r, d)"
    by (cases "f (clock s1)")
  from assms(3) have "served_again (fst (f (clock s1)))" ..
  with fr obtain v where r: "r = Inr v" and v: "json_member v \<noteq> Null"
    by (auto simp: served_again_def split: sum.splits)
  show ?thesis
    using g s1 fr r v
    by (auto simp: fetchWithCache_def setCachedData_def Let_def)
qed

lemma repeat_fetch_at_most_once:
  assumes "readable s" "writable s"
    and "\<forall>(w, f) \<in> set calls. \<forall>t. served_again (fst (f t))"
    and "clock (repeat_fetch k calls s) - clock s < CACHE_DURATION"
  shows "fetches (repeat_fetch k calls s) \<le> Suc (fetches s)"
  using assms
proof (induction calls arbitrary: s)
  case Nil
  then show ?case by simp
next
  case (Cons c calls)
  obtain w f where c: "c = (w, f)" by (cases c)
  let ?s = "elapse w s"
  have r: "readable ?s" and wr: "writable ?s" and fs: "fetches ?s = fetches s"
    and cl: "clock s \<le> clock ?s"
    using Cons.prems by (simp_all add: elapse_def)
  from Cons.prems(3) have f: "\<forall>t. served_again (fst (f t))"
    and rest: "\<forall>(w, f) \<in> set calls. \<forall>t. served_again (fst (f t))"
    by (auto simp: c)
  from fetchWithCache_cases [OF r wr f, of k]
  show ?case
  proof (elim disjE conjE exE)
    assume hit: "fetchWithCache k f ?s = (Inr (fst (getCachedData k ?s)), ?s)"
    have "clock (repeat_fetch k calls ?s) - clock ?s < CACHE_DURATION"
      using Cons.prems(4) cl by (simp add: c hit)
    from Cons.IH [OF r wr rest this] show ?thesis
      by (simp add: c hit fs)
  next
    fix v s'
    assume miss: "fetchWithCache k f ?s = (Inr v, s')" and r': "readable s'"
      and n: "fetches s' = Suc (fetches ?s)" and cl': "clock ?s \<le> clock s'"
      and v: "json_member v \<noteq> Null"
      and i: "items s' k = Some (Entry (json_member v) (clock s'))"
    have "clock (repeat_fetch k calls s') - clock s' < CACHE_DURATION"
      using Cons.prems(4) cl cl' by (simp add: c miss)
    from repeat_fetch_hits [OF r' i v this] show ?thesis
      by (simp add: c miss n fs)
  qed
qed

text \<open>
  C4, as stated, fails for a payload that JSON does not represent: the entry is written
  with \<open>JSON.stringify\<close>, which writes \<open>Infinity\<close> as \<open>null\<close>, and the read returns
  \<open>null\<close>.
\<close>

theorem cache_round_trip_counterexample:
  "fst (getCachedData ''k'' (setCachedData ''k'' (Number PosInf) empty_storage))
     \<noteq> Number PosInf"
  by (simp add: getCachedData_def setCachedData_def empty_storage_def json_member_def
        CACHE_DURATION_def)

text \<open>
  C4, amended.  On a storage that can be read and written, \<open>setCachedData k v\<close> followed
  by \<open>getCachedData k\<close> less than 600000 ms later returns \<open>v\<close> unchanged, for every
  payload \<open>v\<close> that JSON represents (\<open>json_member v = v\<close>), and leaves the entry in place.
  Once the age of the entry has reached 600000 ms, \<open>getCachedData k\<close> returns \<open>null\<close> and
  removes the entry, and a read at any later time returns \<open>null\<close> again.
\<close>

theorem cache_round_trip:
  assumes "readable s" and "writable s"
  shows "(json_member v = v \<and> int d < CACHE_DURATION \<longrightarrow>
            getCachedData k (elapse d (setCachedData k v s))
              = (v, elapse d (setCachedData k v s)))
       \<and> (CACHE_DURATION \<le> int d \<longrightarrow>
            fst (getCachedData k (elapse d (setCachedData k v s))) = Null
          \<and> items (snd (getCachedData k (elapse d (setCachedData k v s)))) k = None
          \<and> fst (getCachedData k
                 (elapse d' (snd (getCachedData k (elapse d (setCachedData k v s))))))
              = Null)"
  using assms
  by (simp add: getCachedData_def setCachedData_def elapse_def)

theorem cache_round_trip_witness:
  "readable empty_storage \<and> writable empty_storage
   \<and> json_member (Arr [Number (Fin (1 / 2))]) = Arr [Number (Fin (1 / 2))]
   \<and> int 0 < CACHE_DURATION \<and> CACHE_DURATION \<le> int 600000
   \<and> fst (getCachedData ''k''
            (elapse 0 (setCachedData ''k'' (Arr [Number (Fin (1 / 2))]) empty_storage)))
       = Arr [Number (Fin (1 / 2))]
   \<and> fst (getCachedData ''k''
            (elapse 600000 (setCachedData ''k'' (Arr [Number (Fin (1 / 2))]) empty_storage)))
       = Null"
proof -
  have r: "readable empty_storage" and w: "writable empty_storage"
    by (simp_all add: empty_storage_def)
  have j: "json_member (Arr [Number (Fin (1 / 2))]) = Arr [Number (Fin (1 / 2))]"
    by (simp add: json_member_def)
  have d: "int 0 < CACHE_DURATION" "CACHE_DURATION \<le> int 600000"
    by (simp_all add: CACHE_DURATION_def)
  from cache_round_trip [OF r w, of "Arr [Number (Fin (1 / 2))]" 0 "''k''"] j d(1)
  have "fst (getCachedData ''k''
          (elapse 0 (setCachedData ''k'' (Arr [Number (Fin (1 / 2))]) empty_storage)))
        = Arr [Number (Fin (1 / 2))]"
    by simp
  moreover
  from cache_round_trip [OF r w, of "Arr [Number (Fin (1 / 2))]" 600000 "''k''"] d(2)
  have "fst (getCachedData ''k''
          (elapse 600000 (setCachedData ''k'' (Arr [Number (Fin (1 / 2))]) empty_storage)))
        = Null"
    by blast
  ultimately show ?thesis
    using r w j d by blast
qed

section \<open>Fetching through the cache\<close>

text \<open>
  C10.  When the fetch function settles with \<open>null\<close>, \<open>fetchWithCache\<close> returns \<open>null\<close>
  and writes an entry with the payload \<open>null\<close>.  Whenever the entry of a key has the
  payload \<open>null\<close>, at any time and so within the freshness window as well, a call of
  \<open>fetchWithCache\<close> for the key invokes its fetch function and returns what that settles
  with.
\<close>

theorem null_payload_refetched:
  "(readable s \<and> writable s \<and> fst (getCachedData k s) = Null
      \<and> f (clock s) = (Inr Null, d) \<longrightarrow>
        fst (fetchWithCache k f s) = Inr Null
      \<and> items (snd (fetchWithCache k f s)) k = Some (Entry Null (clock s + int d)))
   \<and> (items s' k = Some (Entry Null t) \<longrightarrow>
        fetches (snd (fetchWithCache k g s')) = Suc (fetches s')
      \<and> fst (fetchWithCache k g s') = fst (g (clock s')))"
proof -
  have store: "fst (fetchWithCache k f s) = Inr Null
      \<and> items (snd (fetchWithCache k f s)) k = Some (Entry Null (clock s + int d))"
    if r: "readable s" and w: "writable s" and m: "fst (getCachedData k s) = Null"
      and f: "f (clock s) = (Inr Null, d)"
  proof -
    obtain s1 where g: "getCachedData k s = (Null, s1)"
      using m by (cases "getCachedData k s") simp
    then have "writable s1" "clock s1 = clock s"
      using r w
      by (auto simp: getCachedData_def split: option.splits item.splits if_splits)
    with g f show ?thesis
      by (simp add: fetchWithCache_def setCachedData_def json_member_def)
  qed
  have again: "fetches (snd (fetchWithCache k g s')) = Suc (fetches s')
      \<and> fst (fetchWithCache k g s') = fst (g (clock s'))"
    if i: "items s' k = Some (Entry Null t)"
  proof -
    from i have "\<exists>s1. getCachedData k s' = (Null, s1)
        \<and> clock s1 = clock s' \<and> fetches s1 = fetches s'"
      by (simp add: getCachedData_def)
    then obtain s1 where g: "getCachedData k s' = (Null, s1)"
      and s1: "clock s1 = clock s'" "fetches s1 = fetches s'"
      by blast
    obtain r e where r: "g (clock s') = (r, e)"
      by (cases "g (clock s')")
    show ?thesis
      using g s1 r
      by (cases r) (simp_all add: fetchWithCache_def setCachedData_def Let_def)
  qed
  from store again show ?thesis
    by blast
qed

theorem null_payload_refetched_witness:
  "readable empty_storage \<and> writable empty_storage
   \<and> fst (getCachedData ''usd-current'' empty_storage) = Null
   \<and> always (Inr Null) 5 (clock empty_storage) = (Inr Null, 5)
   \<and> items (snd (fetchWithCache ''usd-current'' (always (Inr Null) 5) empty_storage))
        ''usd-current'' = Some (Entry Null 5)
   \<and> fetches (snd (fetchWithCache ''usd-current'' (always (Inr (Number (Fin 1))) 5)
        (snd (fetchWithCache ''usd-current'' (always (Inr Null) 5) empty_storage)))) = 2
   \<and> fst (fetchWithCache ''usd-current'' (always (Inr (Number (Fin 1))) 5)
        (snd (fetchWithCache ''usd-current'' (always (Inr Null) 5) empty_storage)))
       = Inr (Number (Fin 1))"
proof -
  let ?s1 = "snd (fetchWithCache ''usd-current'' (always (Inr Null) 5) empty_storage)"
  have r: "readable empty_storage" and w: "writable empty_storage"
    and m: "fst (getCachedData ''usd-current'' empty_storage) = Null"
    and f: "always (Inr Null) 5 (clock empty_storage) = (Inr Null, 5)"
    by (simp_all add: empty_storage_def getCachedData_def always_def)
  have c: "clock empty_storage = 0" "fetches empty_storage = 0"
    by (simp_all add: empty_storage_def)
  note n = null_payload_refetched [of empty_storage "''usd-current''" "always (Inr Null) 5" 5
      ?s1 5 "always (Inr (Number (Fin 1))) 5"]
  from n r w m f c have i: "items ?s1 ''usd-current'' = Some (Entry Null 5)"
    by simp
  have "fetches ?s1 = 1"
    by (simp add: fetchWithCache_def getCachedData_def setCachedData_def empty_storage_def
          always_def)
  with n i have "fetches (snd (fetchWithCache ''usd-current''
      (always (Inr (Number (Fin 1))) 5) ?s1)) = 2"
    and "fst (fetchWithCache ''usd-current'' (always (Inr (Number (Fin 1))) 5) ?s1)
      = Inr (Number (Fin 1))"
    by (simp_all add: always_def)
  with r w m f i show ?thesis
    by blast
qed

text \<open>
  C5, as stated, fails: a fetch function that settles with \<open>null\<close> is invoked by each
  of two calls made at the same instant.
\<close>

theorem fetchWithCache_once_counterexample:
  "fetches (repeat_fetch ''k'' [(0, always (Inr Null) 0), (0, always (Inr Null) 0)]
      empty_storage) = 2
   \<and> clock (repeat_fetch ''k'' [(0, always (Inr Null) 0), (0, always (Inr Null) 0)]
      empty_storage) - clock empty_storage < CACHE_DURATION"
  by (simp add: fetchWithCache_def getCachedData_def setCachedData_def empty_storage_def
        always_def elapse_def json_member_def CACHE_DURATION_def)

text \<open>
  C5, amended.  On a storage that can be read and written, a sequence of calls of
  \<open>fetchWithCache\<close> for one key that all lie within less than 600000 ms invokes the fetch
  functions at most once, however many calls there are, provided each fetch function
  settles with a value that the cache serves again: it does not throw and its value is
  not read back as \<open>null\<close>.  The empty series is such a value: once fetched, a call
  within the window returns it from the cache and does not fetch.
\<close>

theorem fetchWithCache_at_most_once:
  assumes "readable s" and "writable s"
  shows "((\<forall>(w, f) \<in> set calls. \<forall>t. served_again (fst (f t)))
          \<and> clock (repeat_fetch k calls s) - clock s < CACHE_DURATION \<longrightarrow>
            fetches (repeat_fetch k calls s) \<le> Suc (fetches s))
       \<and> (fst (getCachedData k s) = Null \<and> f (clock s) = (Inr (Arr []), d)
          \<and> int w < CACHE_DURATION \<longrightarrow>
            fetchWithCache k g (elapse w (snd (fetchWithCache k f s)))
              = (Inr (Arr []), elapse w (snd (fetchWithCache k f s))))"
proof -
  have once: "fetches (repeat_fetch k calls s) \<le> Suc (fetches s)"
    if "\<forall>(w, f) \<in> set calls. \<forall>t. served_again (fst (f t))"
      and "clock (repeat_fetch k calls s) - clock s < CACHE_DURATION"
    using assms that by (rule repeat_fetch_at_most_once)
  have empty: "fetchWithCache k g (elapse w (snd (fetchWithCache k f s)))
              = (Inr (Arr []), elapse w (snd (fetchWithCache k f s)))"
    if m: "fst (getCachedData k s) = Null" and f: "f (clock s) = (Inr (Arr []), d)"
      and fresh: "int w < CACHE_DURATION"
  proof -
    obtain s1 where g: "getCachedData k s = (Null, s1)"
      using m by (cases "getCachedData k s") simp
    then have s1: "writable s1" "readable s1" "clock s1 = clock s"
      using assms
      by (auto simp: getCachedData_def split: option.splits item.splits if_splits)
    let ?s' = "elapse w (snd (fetchWithCache k f s))"
    have "readable ?s'" "items ?s' k = Some (Entry (Arr []) (clock s + int d))"
      "clock ?s' - (clock s + int d) < CACHE_DURATION"
      using g s1 f fresh
      by (simp_all add: fetchWithCache_def setCachedData_def json_member_def elapse_def)
    then show ?thesis
      by (intro fetchWithCache_hit) simp_all
  qed
  from once empty show ?thesis
    by blast
qed

theorem fetchWithCache_at_most_once_witness:
  "readable empty_storage \<and> writable empty_storage
   \<and> served_again (fst (always (Inr (Arr [])) 200 0))
   \<and> clock (repeat_fetch ''jpy-historical''
        [(1000, always (Inr (Arr [])) 200), (1000, always (Inr (Arr [])) 200),
         (5000, always (Inr (Arr [])) 200)] empty_storage) - clock empty_storage
       < CACHE_DURATION
   \<and> fetches (repeat_fetch ''jpy-historical''
        [(1000, always (Inr (Arr [])) 200), (1000, always (Inr (Arr [])) 200),
         (5000, always (Inr (Arr [])) 200)] empty_storage) \<le> Suc (fetches empty_storage)
   \<and> fst (getCachedData ''jpy-historical'' empty_storage) = Null
   \<and> always (Inr (Arr [])) 200 (clock empty_storage) = (Inr (Arr []), 200)
   \<and> int 1000 < CACHE_DURATION
   \<and> fst (fetchWithCache ''jpy-historical'' (always (Inr (Arr [])) 200)
        (elapse 1000 (snd (fetchWithCache ''jpy-historical'' (always (Inr (Arr [])) 200)
           empty_storage)))) = Inr (Arr [])"
proof -
  let ?calls = "[(1000, always (Inr (Arr [])) 200), (1000, always (Inr (Arr [])) 200),
                 (5000, always (Inr (Arr [])) 200)]"
  have r: "readable empty_storage" and w: "writable empty_storage"
    by (simp_all add: empty_storage_def)
  have s: "\<forall>(w, f) \<in> set ?calls. \<forall>t. served_again (fst (f t))"
    by (simp add: always_def served_again_def json_member_def)
  have c: "clock (repeat_fetch ''jpy-historical'' ?calls empty_storage) - clock empty_storage
             < CACHE_DURATION"
    by (simp add: fetchWithCache_def getCachedData_def setCachedData_def empty_storage_def
          always_def elapse_def json_member_def CACHE_DURATION_def)
  have m: "fst (getCachedData ''jpy-historical'' empty_storage) = Null"
    and f: "always (Inr (Arr [])) 200 (clock empty_storage) = (Inr (Arr []), 200)"
    and d: "int 1000 < CACHE_DURATION"
    by (simp_all add: empty_storage_def getCachedData_def always_def CACHE_DURATION_def)
  note t = fetchWithCache_at_most_once [OF r w, of ?calls "''jpy-historical''"
      "always (Inr (Arr [])) 200" 200 1000 "always (Inr (Arr [])) 200"]
  from t s c
  have "fetches (repeat_fetch ''jpy-historical'' ?calls empty_storage)
          \<le> Suc (fetches empty_storage)"
    by blast
  moreover from t m f d
  have "fst (fetchWithCache ''jpy-historical'' (always (Inr (Arr [])) 200)
        (elapse 1000 (snd (fetchWithCache ''jpy-historical'' (always (Inr (Arr [])) 200)
           empty_storage)))) = Inr (Arr [])"
    by simp
  moreover have "served_again (fst (always (Inr (Arr [])) 200 0))"
    by (simp add: always_def served_again_def json_member_def)
  ultimately show ?thesis
    using r w c m f d by blast
qed

section \<open>The percentage display\<close>

lemma nearest_fixed_error:
  "\<bar>of_int (nearest_fixed a f) / 10 ^ f - a\<bar> \<le> 1 / (2 * 10 ^ f)"
proof -
  define y where "y = a * 10 ^ f"
  define n :: rat where "n = of_int (nearest_fixed a f)"
  define P :: rat where "P = 10 ^ f"
  have p: "0 < P" by (simp add: P_def)
  have "of_int \<lfloor>y + 1 / 2\<rfloor> \<le> y + 1 / 2" and "y + 1 / 2 < of_int \<lfloor>y + 1 / 2\<rfloor> + 1"
    by linarith+
  then have "\<bar>n - y\<bar> \<le> 1 / 2"
    unfolding n_def nearest_fixed_def y_def by linarith
  then have "\<bar>n - y\<bar> / P \<le> (1 / 2) / P"
    using p by (rule_tac divide_right_mono) simp_all
  moreover have "n / P - a = (n - y) / P"
    using p by (simp add: y_def P_def diff_divide_distrib)
  moreover have "\<bar>(n - y) / P\<bar> = \<bar>n - y\<bar> / P"
    using p by (simp only: abs_divide abs_of_pos)
  ultimately have "\<bar>n / P - a\<bar> \<le> (1 / 2) / P"
    by (simp only:)
  then have "\<bar>n / P - a\<bar> \<le> 1 / (2 * P)"
    by simp
  then show ?thesis
    by (simp add: n_def P_def)
qed

lemma classList_remove_tags:
  "''positive'' \<notin> set (classList_remove [''positive'', ''negative''] cs)
   \<and> ''negative'' \<notin> set (classList_remove [''positive'', ''negative''] cs)"
  by (simp add: classList_remove_def)

lemma update_diff_zero:
  "js_strict_eq avgRate (Fin 0) \<Longrightarrow>
     textContent (update_diff rate avgRate e) = ''N/A''
     \<and> ''positive'' \<notin> set (classList (update_diff rate avgRate e))
     \<and> ''negative'' \<notin> set (classList (update_diff rate avgRate e))"
  by (simp add: update_diff_def classList_remove_def)

lemma update_diff_nonzero:
  "\<not> js_strict_eq avgRate (Fin 0) \<Longrightarrow>
     textContent (update_diff rate avgRate e) =
       (if js_ge (js_sub rate avgRate) (Fin 0) then ''+'' else '''')
       @ toFixed (js_mul (js_div (js_sub rate avgRate) avgRate) (Fin 100)) 2 @ ''%''"
  by (simp add: update_diff_def Let_def)

lemma updateCurrencyDisplay_diff:
  assumes "doc (prefix @ ''-icon'') \<noteq> None" "doc (prefix @ ''-rate'') \<noteq> None"
    "doc (prefix @ ''-diff'') \<noteq> None" "doc (prefix @ ''-comment'') \<noteq> None"
    and "map_of WEATHER weatherType \<noteq> None"
  shows "\<exists>doc'. updateCurrencyDisplay prefix rate avgRate weatherType random doc = Inr doc'
           \<and> doc' (prefix @ ''-diff'')
               = Some (update_diff rate avgRate (the (doc (prefix @ ''-diff''))))"
  using assms
  by (auto simp: updateCurrencyDisplay_def getComment_def Let_def)

text \<open>
  C9.  When the four elements of the pair are in the document, \<open>updateCurrencyDisplay\<close>
  writes the element \<open>diffEl\<close> as follows, whatever the prefix, so for the inverted
  pair too from the raw rates.  If the average is zero the text is \<open>N/A\<close> and the element
  has neither the class \<open>positive\<close> nor \<open>negative\<close>.  Otherwise the text is
  \<open>((rate - avgRate) / avgRate) * 100\<close> printed by \<open>toFixed(2)\<close>, with a \<open>+\<close> in front
  exactly when \<open>rate - avgRate \<ge> 0\<close>, and \<open>%\<close> behind.  \<open>toFixed(2)\<close> of a finite \<open>x\<close>
  below \<open>10\<^sup>2\<^sup>1\<close> prints the sign and the digits of the integer \<open>n\<close> with \<open>n / 100\<close>
  nearest to \<open>\<bar>x\<bar>\<close>, with a point before the last two.
\<close>

theorem updateCurrencyDisplay_percentage:
  assumes "doc (prefix @ ''-icon'') \<noteq> None" and "doc (prefix @ ''-rate'') \<noteq> None"
    and "doc (prefix @ ''-diff'') \<noteq> None" and "doc (prefix @ ''-comment'') \<noteq> None"
    and "map_of WEATHER weatherType \<noteq> None"
  shows "\<exists>doc' diffEl.
           updateCurrencyDisplay prefix rate avgRate weatherType random doc = Inr doc'
         \<and> doc' (prefix @ ''-diff'') = Some diffEl
         \<and> (js_strict_eq avgRate (Fin 0) \<longrightarrow>
              textContent diffEl = ''N/A''
            \<and> ''positive'' \<notin> set (classList diffEl)
            \<and> ''negative'' \<notin> set (classList diffEl))
         \<and> (\<not> js_strict_eq avgRate (Fin 0) \<longrightarrow>
              textContent diffEl =
                (if js_ge (js_sub rate avgRate) (Fin 0) then ''+'' else '''')
                @ toFixed (js_mul (js_div (js_sub rate avgRate) avgRate) (Fin 100)) 2
                @ ''%'')
         \<and> (\<bar>x\<bar> < 10 ^ 21 \<longrightarrow>
              toFixed (Fin x) 2
                = (if x < 0 then ''-'' else '''') @ fixed_point (nearest_fixed \<bar>x\<bar> 2) 2
            \<and> \<bar>of_int (nearest_fixed \<bar>x\<bar> 2) / 10 ^ 2 - \<bar>x\<bar>\<bar> \<le> 1 / (2 * 10 ^ 2))"
proof -
  from updateCurrencyDisplay_diff [OF assms]
  obtain doc' where u: "updateCurrencyDisplay prefix rate avgRate weatherType random doc
      = Inr doc'"
    and d: "doc' (prefix @ ''-diff'')
      = Some (update_diff rate avgRate (the (doc (prefix @ ''-diff''))))"
    by blast
  have fixed: "toFixed (Fin x) 2
      = (if x < 0 then ''-'' else '''') @ fixed_point (nearest_fixed \<bar>x\<bar> 2) 2"
    if "\<bar>x\<bar> < 10 ^ 21"
    using that by (simp add: toFixed_def)
  from u d fixed update_diff_zero [of avgRate rate] update_diff_nonzero [of avgRate rate]
    nearest_fixed_error [of "\<bar>x\<bar>" 2]
  show ?thesis
    by blast
qed

theorem updateCurrencyDisplay_percentage_witness:
  "blank_page (''usd'' @ ''-icon'') \<noteq> None \<and> blank_page (''usd'' @ ''-rate'') \<noteq> None
   \<and> blank_page (''usd'' @ ''-diff'') \<noteq> None \<and> blank_page (''usd'' @ ''-comment'') \<noteq> None
   \<and> map_of WEATHER ''rainy'' \<noteq> None
   \<and> \<not> js_strict_eq (literal (93 / 100)) (Fin 0)
   \<and> js_strict_eq NegZero (Fin 0)
   \<and> \<bar>484 / 100 :: rat\<bar> < 10 ^ 21
   \<and> (\<exists>doc' diffEl.
         updateCurrencyDisplay ''usd'' (literal (92 / 100)) (literal (93 / 100)) ''rainy''
           (Fin 0) blank_page = Inr doc'
       \<and> doc' (''usd'' @ ''-diff'') = Some diffEl
       \<and> textContent diffEl = ''-1.08%'')
   \<and> (\<exists>doc' diffEl.
         updateCurrencyDisplay ''usd'' (literal (92 / 100)) NegZero ''rainy''
           (Fin 0) blank_page = Inr doc'
       \<and> doc' (''usd'' @ ''-diff'') = Some diffEl
       \<and> textContent diffEl = ''N/A'')
   \<and> toFixed (Fin (484 / 100)) 2 = ''4.84''"
proof -
  have e: "blank_page (''usd'' @ ''-icon'') \<noteq> None" "blank_page (''usd'' @ ''-rate'') \<noteq> None"
    "blank_page (''usd'' @ ''-diff'') \<noteq> None" "blank_page (''usd'' @ ''-comment'') \<noteq> None"
    by (simp_all add: blank_page_def)
  have w: "map_of WEATHER ''rainy'' \<noteq> None"
    by (simp add: WEATHER_def)
  have nz: "\<not> js_strict_eq (literal (93 / 100)) (Fin 0)"
    by code_simp
  have z: "js_strict_eq NegZero (Fin 0)"
    by (simp add: js_strict_eq_def)
  have x: "\<bar>484 / 100 :: rat\<bar> < 10 ^ 21"
    by simp
  have pct: "(if js_ge (js_sub (literal (92 / 100)) (literal (93 / 100))) (Fin 0)
              then ''+'' else '''')
      @ toFixed (js_mul (js_div (js_sub (literal (92 / 100)) (literal (93 / 100)))
          (literal (93 / 100))) (Fin 100)) 2 @ ''%'' = ''-1.08%''"
    by code_simp
  have digits: "(if (484 / 100 :: rat) < 0 then ''-'' else '''')
      @ fixed_point (nearest_fixed \<bar>484 / 100\<bar> 2) 2 = ''4.84''"
    by code_simp
  note t = updateCurrencyDisplay_percentage [OF e w, where rate = "literal (92 / 100)"
      and avgRate = "literal (93 / 100)" and random = "Fin 0" and x = "484 / 100"]
  from t nz x obtain doc' diffEl where
    "updateCurrencyDisplay ''usd'' (literal (92 / 100)) (literal (93 / 100)) ''rainy''
       (Fin 0) blank_page = Inr doc'"
    and "doc' (''usd'' @ ''-diff'') = Some diffEl"
    and "textContent diffEl =
      (if js_ge (js_sub (literal (92 / 100)) (literal (93 / 100))) (Fin 0)
              then ''+'' else '''')
      @ toFixed (js_mul (js_div (js_sub (literal (92 / 100)) (literal (93 / 100)))
          (literal (93 / 100))) (Fin 100)) 2 @ ''%''"
    by blast
  then have a: "\<exists>doc' diffEl.
         updateCurrencyDisplay ''usd'' (literal (92 / 100)) (literal (93 / 100)) ''rainy''
           (Fin 0) blank_page = Inr doc'
       \<and> doc' (''usd'' @ ''-diff'') = Some diffEl
       \<and> textContent diffEl = ''-1.08%''"
    by (simp only: pct) blast
  from t x have "toFixed (Fin (484 / 100)) 2
      = (if (484 / 100 :: rat) < 0 then ''-'' else '''')
        @ fixed_point (nearest_fixed \<bar>484 / 100\<bar> 2) 2"
    by blast
  then have f: "toFixed (Fin (484 / 100)) 2 = ''4.84''"
    by (simp only: digits)
  from updateCurrencyDisplay_percentage [OF e w, where rate = "literal (92 / 100)"
      and avgRate = NegZero and random = "Fin 0"] z
  have b: "\<exists>doc' diffEl.
         updateCurrencyDisplay ''usd'' (literal (92 / 100)) NegZero ''rainy''
           (Fin 0) blank_page = Inr doc'
       \<and> doc' (''usd'' @ ''-diff'') = Some diffEl
       \<and> textContent diffEl = ''N/A''"
    by blast
  from e w nz z x a b f show ?thesis
    by blast
qed

section \<open>The refresh cycle\<close>

lemma set_display_other: "set_display i v doc = Inr doc' \<Longrightarrow> j \<noteq> i \<Longrightarrow> doc' j = doc j"
  by (auto simp: set_display_def split: option.splits)

lemma set_textContent_other:
  "set_textContent i v doc = Inr doc' \<Longrightarrow> j \<noteq> i \<Longrightarrow> doc' j = doc j"
  by (auto simp: set_textContent_def split: option.splits)

lemma show_error_other:
  "j \<noteq> ''loading'' \<Longrightarrow> j \<noteq> ''error'' \<Longrightarrow> snd (show_error doc) j = doc j"
  by (auto simp: show_error_def set_display_def split: option.splits)

lemma show_error_shown:
  assumes "doc ''loading'' = Some l" and "doc ''error'' = Some e"
  shows "show_error doc
    = (None, doc(''loading'' \<mapsto> l\<lparr>display := ''none''\<rparr>, ''error'' \<mapsto> e\<lparr>display := ''block''\<rparr>))"
  using assms by (simp add: show_error_def set_display_def)

lemma getCachedData_cong:
  assumes "readable s' = readable s" and "items s' k = items s k" and "clock s' = clock s"
  shows "fst (getCachedData k s') = fst (getCachedData k s)"
  using assms by (simp add: getCachedData_def split: option.splits item.splits)

lemma getCachedData_clock: "clock (snd (getCachedData k s)) = clock s"
  by (simp add: getCachedData_def split: option.splits item.splits)

lemma fetchWithCache_throws:
  assumes "fst (getCachedData k s) = Null" and "fst (f (clock s)) = Inl e"
  shows "fst (fetchWithCache k f s) = Inl e"
proof -
  obtain s1 where g: "getCachedData k s = (Null, s1)"
    using assms(1) by (cases "getCachedData k s") simp
  then have "clock s1 = clock s"
    using getCachedData_clock [of k s] by simp
  moreover obtain d where "f (clock s) = (Inl e, d)"
    using assms(2) by (cases "f (clock s)") simp
  ultimately show ?thesis
    using g by (simp add: fetchWithCache_def Let_def)
qed

lemma fetchWithCache_other_key:
  "k' \<noteq> k \<Longrightarrow> items (snd (fetchWithCache k f s)) k' = items s k'"
  by (auto simp: fetchWithCache_def getCachedData_def setCachedData_def Let_def
           split: option.splits item.splits prod.splits sum.splits)

lemma promise_all_rejects:
  "r1 = Inl e \<or> r3 = Inl e \<Longrightarrow> \<exists>e'. promise_all r1 r2 r3 r4 = Inl e'"
  by (cases r1; cases r2; cases r3; cases r4) auto

lemma fetch_all_rejects:
  assumes "(fst (getCachedData ''jpy-current'' s) = Null
              \<and> fetchCurrentRate (fst (latest net ''JPY'')) ''EUR'' = Inl e)
         \<or> (fst (getCachedData ''usd-current'' s) = Null
              \<and> fetchCurrentRate (fst (latest net ''USD'')) ''EUR'' = Inl e)"
  shows "\<exists>e' s'. fetch_all net s = (Inl e', s')"
proof -
  obtain r1 s1 where c1: "fetchWithCache ''jpy-current'' (current_fetch net ''JPY'') s = (r1, s1)"
    by (cases "fetchWithCache ''jpy-current'' (current_fetch net ''JPY'') s")
  obtain r2 s2 where c2: "fetchWithCache ''jpy-historical'' (historical_fetch net ''JPY'')
      (s1\<lparr>clock := clock s\<rparr>) = (r2, s2)"
    by (cases "fetchWithCache ''jpy-historical'' (historical_fetch net ''JPY'')
      (s1\<lparr>clock := clock s\<rparr>)")
  let ?s2 = "s2\<lparr>clock := clock s\<rparr>"
  obtain r3 s3 where c3: "fetchWithCache ''usd-current'' (current_fetch net ''USD'') ?s2
      = (r3, s3)"
    by (cases "fetchWithCache ''usd-current'' (current_fetch net ''USD'') ?s2")
  obtain r4 s4 where c4: "fetchWithCache ''usd-historical'' (historical_fetch net ''USD'')
      (s3\<lparr>clock := clock s\<rparr>) = (r4, s4)"
    by (cases "fetchWithCache ''usd-historical'' (historical_fetch net ''USD'')
      (s3\<lparr>clock := clock s\<rparr>)")
  have jpy: "r1 = Inl e" if "fst (getCachedData ''jpy-current'' s) = Null"
    "fetchCurrentRate (fst (latest net ''JPY'')) ''EUR'' = Inl e"
    using fetchWithCache_throws [of "''jpy-current''" s "current_fetch net ''JPY''" e] that c1
    by (simp add: current_fetch_def)
  have usd: "r3 = Inl e" if m: "fst (getCachedData ''usd-current'' s) = Null"
    and t: "fetchCurrentRate (fst (latest net ''USD'')) ''EUR'' = Inl e"
  proof -
    have "items s1 ''usd-current'' = items s ''usd-current''" "readable s1 = readable s"
      using fetchWithCache_other_key [of "''usd-current''" "''jpy-current''"
          "current_fetch net ''JPY''" s]
        fetchWithCache_flags [of "''jpy-current''" "current_fetch net ''JPY''" s] c1
      by simp_all
    moreover have "items s2 ''usd-current'' = items (s1\<lparr>clock := clock s\<rparr>) ''usd-current''"
      "readable s2 = readable (s1\<lparr>clock := clock s\<rparr>)"
      using fetchWithCache_other_key [of "''usd-current''" "''jpy-historical''"
          "historical_fetch net ''JPY''" "s1\<lparr>clock := clock s\<rparr>"]
        fetchWithCache_flags [of "''jpy-historical''" "historical_fetch net ''JPY''"
          "s1\<lparr>clock := clock s\<rparr>"] c2
      by simp_all
    ultimately have "fst (getCachedData ''usd-current'' ?s2)
        = fst (getCachedData ''usd-current'' s)"
      by (intro getCachedData_cong) simp_all
    with m have "fst (getCachedData ''usd-current'' ?s2) = Null"
      by simp
    from fetchWithCache_throws [OF this, of "current_fetch net ''USD''" e] t c3
    show ?thesis
      by (simp add: current_fetch_def)
  qed
  from assms jpy usd have "r1 = Inl e \<or> r3 = Inl e"
    by blast
  then obtain e' where "promise_all r1 r2 r3 r4 = Inl e'"
    using promise_all_rejects by blast
  with c1 c2 c3 c4 show ?thesis
    by (simp add: fetch_all_def Let_def)
qed

text \<open>
  C7.  When the latest-rate fetch of either pair is made (the cache has no fresh value for
  it) and throws, \<open>initApp\<close> ends in its \<open>catch\<close> block, whatever the other three fetches
  give: no element of the document other than \<open>loading\<close> and \<open>error\<close> is changed, so no
  field of either pair is written, and with these two elements in the document \<open>error\<close>
  is shown, \<open>loading\<close> is hidden and the promise does not reject.  \<open>fetchCurrentRate\<close>
  throws on a status that is not a success and on a body that does not parse.
\<close>

theorem initApp_current_rate_failure:
  assumes "(fst (getCachedData ''jpy-current'' s) = Null
              \<and> fetchCurrentRate (fst (latest net ''JPY'')) ''EUR'' = Inl e)
         \<or> (fst (getCachedData ''usd-current'' s) = Null
              \<and> fetchCurrentRate (fst (latest net ''USD'')) ''EUR'' = Inl e)"
  shows "(\<exists>r doc' s'.
           initApp net random1 random2 toLocaleString s doc = Some (r, doc', s')
         \<and> (\<forall>i. i \<noteq> ''loading'' \<and> i \<noteq> ''error'' \<longrightarrow> doc' i = doc i)
         \<and> (\<forall>l err. doc ''loading'' = Some l \<and> doc ''error'' = Some err \<longrightarrow>
               r = None
             \<and> doc' ''loading'' = Some (l\<lparr>display := ''none''\<rparr>)
             \<and> doc' ''error'' = Some (err\<lparr>display := ''block''\<rparr>)))
       \<and> fetchCurrentRate (Resolved (Response False body)) targetCurrency
           = Inl (Error ''Failed to fetch current rate'')
       \<and> fetchCurrentRate (Resolved (Response True None)) targetCurrency = Inl JsonRejected"
proof -
  from fetch_all_rejects [OF assms] obtain e' s' where f: "fetch_all net s = (Inl e', s')"
    by blast
  obtain r doc' where c: "show_error doc = (r, doc')"
    by (cases "show_error doc")
  have i: "initApp net random1 random2 toLocaleString s doc = Some (r, doc', s')"
    by (simp add: initApp_def f c)
  have other: "\<forall>i. i \<noteq> ''loading'' \<and> i \<noteq> ''error'' \<longrightarrow> doc' i = doc i"
    using show_error_other [of _ doc] c by simp
  have shown: "\<forall>l err. doc ''loading'' = Some l \<and> doc ''error'' = Some err \<longrightarrow>
               r = None
             \<and> doc' ''loading'' = Some (l\<lparr>display := ''none''\<rparr>)
             \<and> doc' ''error'' = Some (err\<lparr>display := ''block''\<rparr>)"
    using c by (auto simp: show_error_shown)
  have throws: "fetchCurrentRate (Resolved (Response False body)) targetCurrency
           = Inl (Error ''Failed to fetch current rate'')"
    "fetchCurrentRate (Resolved (Response True None)) targetCurrency = Inl JsonRejected"
    by (simp_all add: fetchCurrentRate_def)
  from i other shown have "\<exists>r doc' s'.
           initApp net random1 random2 toLocaleString s doc = Some (r, doc', s')
         \<and> (\<forall>i. i \<noteq> ''loading'' \<and> i \<noteq> ''error'' \<longrightarrow> doc' i = doc i)
         \<and> (\<forall>l err. doc ''loading'' = Some l \<and> doc ''error'' = Some err \<longrightarrow>
               r = None
             \<and> doc' ''loading'' = Some (l\<lparr>display := ''none''\<rparr>)
             \<and> doc' ''error'' = Some (err\<lparr>display := ''block''\<rparr>))"
    by blast
  with throws show ?thesis
    by (intro conjI)
qed

theorem initApp_current_rate_failure_witness:
  "fst (getCachedData ''jpy-current'' empty_storage) = Null
   \<and> fetchCurrentRate (fst (latest failing_network ''JPY'')) ''EUR'' = Inl FetchRejected
   \<and> fetchCurrentRate (fst (latest failing_network ''USD'')) ''EUR'' = Inr (Number (Fin (1 / 2)))
   \<and> ''usd-icon'' \<noteq> ''loading'' \<and> ''usd-icon'' \<noteq> ''error''
   \<and> blank_page ''loading'' = Some blank \<and> blank_page ''error'' = Some blank
   \<and> (\<exists>doc' s'.
         initApp failing_network (Fin 0) (Fin 0) decimal empty_storage blank_page
           = Some (None, doc', s')
       \<and> doc' ''usd-icon'' = blank_page ''usd-icon''
       \<and> doc' ''loading'' = Some (blank\<lparr>display := ''none''\<rparr>)
       \<and> doc' ''error'' = Some (blank\<lparr>display := ''block''\<rparr>))"
proof -
  have m: "fst (getCachedData ''jpy-current'' empty_storage) = Null"
    by (simp add: getCachedData_def empty_storage_def)
  have t: "fetchCurrentRate (fst (latest failing_network ''JPY'')) ''EUR'' = Inl FetchRejected"
    by (simp add: fetchCurrentRate_def failing_network_def)
  have u: "fetchCurrentRate (fst (latest failing_network ''USD'')) ''EUR''
      = Inr (Number (Fin (1 / 2)))"
    by (simp add: fetchCurrentRate_def failing_network_def rate_body_def)
  have n: "''usd-icon'' \<noteq> ''loading''" "''usd-icon'' \<noteq> ''error''"
    by simp_all
  have p: "blank_page ''loading'' = Some blank" "blank_page ''error'' = Some blank"
    by (simp_all add: blank_page_def)
  from m t have "(fst (getCachedData ''jpy-current'' empty_storage) = Null
      \<and> fetchCurrentRate (fst (latest failing_network ''JPY'')) ''EUR'' = Inl FetchRejected)
    \<or> (fst (getCachedData ''usd-current'' empty_storage) = Null
      \<and> fetchCurrentRate (fst (latest failing_network ''USD'')) ''EUR'' = Inl FetchRejected)"
    by blast
  from initApp_current_rate_failure [OF this, of "Fin 0" "Fin 0" decimal blank_page,
      THEN conjunct1]
  obtain r doc' s' where all:
    "initApp failing_network (Fin 0) (Fin 0) decimal empty_storage blank_page
          = Some (r, doc', s')
     \<and> (\<forall>i. i \<noteq> ''loading'' \<and> i \<noteq> ''error'' \<longrightarrow> doc' i = blank_page i)
     \<and> (\<forall>l err. blank_page ''loading'' = Some l \<and> blank_page ''error'' = Some err \<longrightarrow>
               r = None
             \<and> doc' ''loading'' = Some (l\<lparr>display := ''none''\<rparr>)
             \<and> doc' ''error'' = Some (err\<lparr>display := ''block''\<rparr>))"
    by (elim exE) (rule that)
  from all have i: "initApp failing_network (Fin 0) (Fin 0) decimal empty_storage blank_page
          = Some (r, doc', s')"
    by (rule conjunct1)
  from all have "''usd-icon'' \<noteq> ''loading'' \<and> ''usd-icon'' \<noteq> ''error''
      \<longrightarrow> doc' ''usd-icon'' = blank_page ''usd-icon''"
    by (elim conjE allE)
  with n have o': "doc' ''usd-icon'' = blank_page ''usd-icon''"
    by (simp only: simp_thms)
  from all have "blank_page ''loading'' = Some blank \<and> blank_page ''error'' = Some blank \<longrightarrow>
               r = None
             \<and> doc' ''loading'' = Some (blank\<lparr>display := ''none''\<rparr>)
             \<and> doc' ''error'' = Some (blank\<lparr>display := ''block''\<rparr>)"
    by (elim conjE allE)
  with p have sh: "r = None \<and> doc' ''loading'' = Some (blank\<lparr>display := ''none''\<rparr>)
      \<and> doc' ''error'' = Some (blank\<lparr>display := ''block''\<rparr>)"
    by (simp only: simp_thms)
  from sh have rn: "r = None"
    by (rule conjunct1)
  from sh have l: "doc' ''loading'' = Some (blank\<lparr>display := ''none''\<rparr>)"
    by (rule conjunct2 [THEN conjunct1])
  from sh have er: "doc' ''error'' = Some (blank\<lparr>display := ''block''\<rparr>)"
    by (rule conjunct2 [THEN conjunct2])
  from i rn have "initApp failing_network (Fin 0) (Fin 0) decimal empty_storage blank_page
           = Some (None, doc', s')"
    by (simp only:)
  from this o' l er
  have "\<exists>doc' s'.
         initApp failing_network (Fin 0) (Fin 0) decimal empty_storage blank_page
           = Some (None, doc', s')
       \<and> doc' ''usd-icon'' = blank_page ''usd-icon''
       \<and> doc' ''loading'' = Some (blank\<lparr>display := ''none''\<rparr>)
       \<and> doc' ''error'' = Some (blank\<lparr>display := ''block''\<rparr>)"
    by (intro exI conjI)
  with m t u n p show ?thesis
    by (intro conjI)
qed

section \<open>The fallback for an empty series\<close>

lemma determineWeather_key: "map_of WEATHER (determineWeather currentRate avgRate) \<noteq> None"
  by (simp add: determineWeather_def WEATHER_def Let_def)

lemma updateCurrencyDisplay_total:
  "map_of WEATHER weatherType \<noteq> None \<Longrightarrow>
     \<exists>doc'. updateCurrencyDisplay prefix rate avgRate weatherType random doc = Inr doc'"
  by (auto simp: updateCurrencyDisplay_def getComment_def Let_def)

lemma updateCurrencyDisplay_other:
  assumes "updateCurrencyDisplay prefix rate avgRate weatherType random doc = Inr doc'"
    and "i \<noteq> prefix @ ''-icon''" "i \<noteq> prefix @ ''-rate''"
    and "i \<noteq> prefix @ ''-diff''" "i \<noteq> prefix @ ''-comment''"
  shows "doc' i = doc i"
  using assms
  by (auto simp: updateCurrencyDisplay_def getComment_def Let_def
           split: if_splits option.splits)

lemma updateCurrencyDisplay_icon:
  assumes "pair_elements prefix doc" and "map_of WEATHER weatherType = Some w"
    and "updateCurrencyDisplay prefix rate avgRate weatherType random doc = Inr doc'"
  shows "text_of doc' (prefix @ ''-icon'') = Some (fst w)"
  using assms
  by (auto simp: updateCurrencyDisplay_def getComment_def Let_def pair_elements_def
        text_of_def)

lemma cloudy_icon: "map_of WEATHER ''cloudy'' = Some w \<Longrightarrow> fst w = ''<U+26C5>''"
  by (auto simp: WEATHER_def)

lemma render_fields:
  assumes "updateCurrencyDisplay ''jpy'' jpyRate (calculateAverage jpySeries)
      (determineWeather jpyRate (calculateAverage jpySeries)) random1 doc = Inr doc1"
    and "updateCurrencyDisplay ''usd'' usdRate (calculateAverage usdSeries)
      (determineWeather usdRate (calculateAverage usdSeries)) random2 doc1 = Inr doc2"
    and "i \<noteq> ''loading''" "i \<noteq> ''content''" "i \<noteq> ''update-time''"
  shows "snd (render jpyRate jpySeries usdRate usdSeries random1 random2 now doc) i = doc2 i"
  using assms(3-5)
  by (auto simp: render_def Let_def assms(1,2) set_display_def set_textContent_def
           split: option.splits)

lemma render_icons:
  assumes "pair_elements ''jpy'' doc" and "pair_elements ''usd'' doc"
  shows "\<exists>jw uw.
           map_of WEATHER (determineWeather jpyRate (calculateAverage jpySeries)) = Some jw
         \<and> map_of WEATHER (determineWeather usdRate (calculateAverage usdSeries)) = Some uw
         \<and> text_of (snd (render jpyRate jpySeries usdRate usdSeries random1 random2 now doc))
              ''jpy-icon'' = Some (fst jw)
         \<and> text_of (snd (render jpyRate jpySeries usdRate usdSeries random1 random2 now doc))
              ''usd-icon'' = Some (fst uw)"
proof -
  let ?jw = "determineWeather jpyRate (calculateAverage jpySeries)"
  let ?uw = "determineWeather usdRate (calculateAverage usdSeries)"
  obtain jw where jw: "map_of WEATHER ?jw = Some jw"
    using determineWeather_key [of jpyRate "calculateAverage jpySeries"] by blast
  obtain uw where uw: "map_of WEATHER ?uw = Some uw"
    using determineWeather_key [of usdRate "calculateAverage usdSeries"] by blast
  obtain doc1 where u1: "updateCurrencyDisplay ''jpy'' jpyRate (calculateAverage jpySeries)
      ?jw random1 doc = Inr doc1"
    using updateCurrencyDisplay_total [OF determineWeather_key] by blast
  obtain doc2 where u2: "updateCurrencyDisplay ''usd'' usdRate (calculateAverage usdSeries)
      ?uw random2 doc1 = Inr doc2"
    using updateCurrencyDisplay_total [OF determineWeather_key] by blast
  have j1: "text_of doc1 ''jpy-icon'' = Some (fst jw)"
    using updateCurrencyDisplay_icon [OF assms(1) jw u1] by simp
  have "doc2 ''jpy-icon'' = doc1 ''jpy-icon''"
    by (rule updateCurrencyDisplay_other [OF u2]) simp_all
  with j1 have j2: "text_of doc2 ''jpy-icon'' = Some (fst jw)"
    by (simp add: text_of_def)
  have "doc1 (''usd'' @ ''-icon'') = doc (''usd'' @ ''-icon'')"
    "doc1 (''usd'' @ ''-rate'') = doc (''usd'' @ ''-rate'')"
    "doc1 (''usd'' @ ''-diff'') = doc (''usd'' @ ''-diff'')"
    "doc1 (''usd'' @ ''-comment'') = doc (''usd'' @ ''-comment'')"
    by (rule updateCurrencyDisplay_other [OF u1]; simp)+
  with assms(2) have "pair_elements ''usd'' doc1"
    by (simp add: pair_elements_def)
  from updateCurrencyDisplay_icon [OF this uw u2]
  have u: "text_of doc2 ''usd-icon'' = Some (fst uw)"
    by simp
  have "snd (render jpyRate jpySeries usdRate usdSeries random1 random2 now doc) ''jpy-icon''
      = doc2 ''jpy-icon''"
    "snd (render jpyRate jpySeries usdRate usdSeries random1 random2 now doc) ''usd-icon''
      = doc2 ''usd-icon''"
    by (rule render_fields [OF u1 u2]; simp)+
  with j2 u jw uw show ?thesis
    by (simp add: text_of_def)
qed

lemma initApp_settled:
  assumes "fetch_all net s = (Inr (Number jpy, jpyHistorical, Number usd, usdHistorical), s')"
    and "historicalForAvg jpy jpyHistorical = Some jpySeries"
    and "historicalForAvg usd usdHistorical = Some usdSeries"
    and "i \<noteq> ''loading''" "i \<noteq> ''error''"
  shows "\<exists>r doc'. initApp net random1 random2 toLocaleString s doc = Some (r, doc', s')
           \<and> doc' i = snd (render jpy jpySeries usd usdSeries random1 random2
                             (toLocaleString (clock s')) doc) i"
proof -
  obtain r d where rd: "render jpy jpySeries usd usdSeries random1 random2
      (toLocaleString (clock s')) doc = (r, d)"
    by (cases "render jpy jpySeries usd usdSeries random1 random2
      (toLocaleString (clock s')) doc")
  show ?thesis
  proof (cases r)
    case None
    with assms(1-3) rd show ?thesis
      by (simp add: initApp_def as_number_def)
  next
    case (Some e)
    obtain r' d' where c: "show_error d = (r', d')"
      by (cases "show_error d")
    then have "d' i = d i"
      using show_error_other [OF assms(4,5), of d] by simp
    with assms(1-3) rd Some c show ?thesis
      by (simp add: initApp_def as_number_def)
  qed
qed

lemma relative_difference_self:
  assumes "is_double rate"
  shows "relative_difference rate (calculateAverage [rate]) =
     (case rate of
        Fin x \<Rightarrow> if x = 0 then NaN else if x < 0 then NegZero else Fin 0
      | _ \<Rightarrow> NaN)"
proof (cases "rate = NegZero")
  case True
  then show ?thesis
    by (simp add: calculateAverage_single_NegZero relative_difference_def js_sub_def
          js_div_def)
next
  case False
  with assms have "calculateAverage [rate] = rate"
    by (rule calculateAverage_single)
  then show ?thesis
    using False
    by (cases rate)
       (simp_all add: relative_difference_def js_sub_def js_div_def signed_zero_def)
qed

lemma determineWeather_self:
  assumes "is_double rate"
  shows "determineWeather rate (calculateAverage [rate]) = ''cloudy''"
  using relative_difference_self [OF assms]
  by (cases rate)
     (simp_all add: determineWeather_def js_ge_def THRESHOLD_SUNNY_value
        THRESHOLD_RAINY_value)

text \<open>
  C8, as stated, fails at a current rate of zero: the fallback series is \<open>[0]\<close>, the
  average is 0, and the relative difference is \<open>0 / 0\<close>, which is NaN and not 0.
\<close>

theorem empty_history_zero_rate_counterexample:
  "historicalForAvg (Fin 0) (Arr []) = Some [Fin 0]
   \<and> calculateAverage [Fin 0] = Fin 0
   \<and> relative_difference (Fin 0) (calculateAverage [Fin 0]) = NaN
   \<and> \<not> js_strict_eq (relative_difference (Fin 0) (calculateAverage [Fin 0])) (Fin 0)"
  by (simp add: historicalForAvg_def calculateAverage_def js_sum_def js_div_def
        relative_difference_def js_sub_def js_strict_eq_def signed_zero_def)

text \<open>
  C8, amended.  For an empty historical series \<open>initApp\<close> averages the series that holds
  the current rate alone; the average equals the current rate and the pair is classified
  \<open>cloudy\<close>, whatever the current rate.  The relative difference is 0 when the current
  rate is finite and not zero.  In a cycle whose four fetches settle, the icon of a pair
  with an empty series is the one of \<open>cloudy\<close>, whatever the rate and the series of the
  other pair.
\<close>

theorem empty_history_cloudy:
  "historicalForAvg rate (Arr []) = Some [rate]
   \<and> (is_double rate \<and> rate \<noteq> NaN \<longrightarrow> js_strict_eq (calculateAverage [rate]) rate)
   \<and> (is_double rate \<and> is_finite rate \<and> \<not> is_zero rate \<longrightarrow>
        js_strict_eq (relative_difference rate (calculateAverage [rate])) (Fin 0))
   \<and> (is_double rate \<longrightarrow> determineWeather rate (calculateAverage [rate]) = ''cloudy'')
   \<and> (fetch_all net s = (Inr (Number jpy, Arr [], Number usd, usdHistorical), s')
        \<and> historicalForAvg usd usdHistorical = Some usdSeries \<and> is_double jpy
        \<and> pair_elements ''jpy'' doc \<and> pair_elements ''usd'' doc \<longrightarrow>
        (\<exists>r doc'. initApp net draw draw' toLocaleString s doc = Some (r, doc', s')
                 \<and> text_of doc' ''jpy-icon'' = Some ''<U+26C5>''))
   \<and> (fetch_all net s = (Inr (Number jpy, jpyHistorical, Number usd, Arr []), s')
        \<and> historicalForAvg jpy jpyHistorical = Some jpySeries \<and> is_double usd
        \<and> pair_elements ''jpy'' doc \<and> pair_elements ''usd'' doc \<longrightarrow>
        (\<exists>r doc'. initApp net draw draw' toLocaleString s doc = Some (r, doc', s')
                 \<and> text_of doc' ''usd-icon'' = Some ''<U+26C5>''))"
proof -
  have fallback: "historicalForAvg r (Arr []) = Some [r]" for r
    by (simp add: historicalForAvg_def)
  have avg: "js_strict_eq (calculateAverage [rate]) rate" if "is_double rate" "rate \<noteq> NaN"
  proof (cases "rate = NegZero")
    case True
    then show ?thesis
      by (simp add: calculateAverage_single_NegZero js_strict_eq_def)
  next
    case False
    with that show ?thesis
      by (simp add: calculateAverage_single js_strict_eq_def js_le_refl)
  qed
  have d: "js_strict_eq (relative_difference rate (calculateAverage [rate])) (Fin 0)"
    if "is_double rate" "is_finite rate" "\<not> is_zero rate"
    using relative_difference_self [OF that(1)] that(2,3)
    by (cases rate) (simp_all add: js_strict_eq_def)
  have jpy: "\<exists>r doc'. initApp net draw draw' toLocaleString s doc = Some (r, doc', s')
                 \<and> text_of doc' ''jpy-icon'' = Some ''<U+26C5>''"
    if f: "fetch_all net s = (Inr (Number jpy, Arr [], Number usd, usdHistorical), s')"
      and h: "historicalForAvg usd usdHistorical = Some usdSeries" and dj: "is_double jpy"
      and pj: "pair_elements ''jpy'' doc" and pu: "pair_elements ''usd'' doc"
  proof -
    from initApp_settled [OF f fallback h, of "''jpy-icon''" draw draw' toLocaleString doc]
    obtain r doc' where i: "initApp net draw draw' toLocaleString s doc
        = Some (r, doc', s')"
      and e: "doc' ''jpy-icon'' = snd (render jpy [jpy] usd usdSeries draw draw'
                             (toLocaleString (clock s')) doc) ''jpy-icon''"
      by auto
    from render_icons [OF pj pu, of jpy "[jpy]" usd usdSeries draw draw'
        "toLocaleString (clock s')"] determineWeather_self [OF dj]
    have "text_of (snd (render jpy [jpy] usd usdSeries draw draw'
        (toLocaleString (clock s')) doc)) ''jpy-icon'' = Some ''<U+26C5>''"
      using cloudy_icon by auto
    with e have "text_of doc' ''jpy-icon'' = Some ''<U+26C5>''"
      by (simp add: text_of_def)
    with i show ?thesis
      by blast
  qed
  have usd: "\<exists>r doc'. initApp net draw draw' toLocaleString s doc = Some (r, doc', s')
                 \<and> text_of doc' ''usd-icon'' = Some ''<U+26C5>''"
    if f: "fetch_all net s = (Inr (Number jpy, jpyHistorical, Number usd, Arr []), s')"
      and h: "historicalForAvg jpy jpyHistorical = Some jpySeries" and du: "is_double usd"
      and pj: "pair_elements ''jpy'' doc" and pu: "pair_elements ''usd'' doc"
  proof -
    from initApp_settled [OF f h fallback, of "''usd-icon''" draw draw' toLocaleString doc]
    obtain r doc' where i: "initApp net draw draw' toLocaleString s doc
        = Some (r, doc', s')"
      and e: "doc' ''usd-icon'' = snd (render jpy jpySeries usd [usd] draw draw'
                             (toLocaleString (clock s')) doc) ''usd-icon''"
      by auto
    from render_icons [OF pj pu, of jpy jpySeries usd "[usd]" draw draw'
        "toLocaleString (clock s')"] determineWeather_self [OF du]
    have "text_of (snd (render jpy jpySeries usd [usd] draw draw'
        (toLocaleString (clock s')) doc)) ''usd-icon'' = Some ''<U+26C5>''"
      using cloudy_icon by auto
    with e have "text_of doc' ''usd-icon'' = Some ''<U+26C5>''"
      by (simp add: text_of_def)
    with i show ?thesis
      by blast
  qed
  from fallback avg d determineWeather_self jpy usd show ?thesis
    by blast
qed

theorem empty_history_cloudy_witness:
  "is_double (Fin (1 / 2)) \<and> Fin (1 / 2) \<noteq> NaN \<and> is_finite (Fin (1 / 2))
   \<and> \<not> is_zero (Fin (1 / 2))
   \<and> fetch_all quiet_network empty_storage
       = (Inr (Number (Fin (1 / 2)), Arr [], Number (Fin (1 / 2)), Arr []),
          snd (fetch_all quiet_network empty_storage))
   \<and> historicalForAvg (Fin (1 / 2)) (Arr []) = Some [Fin (1 / 2)]
   \<and> pair_elements ''jpy'' blank_page \<and> pair_elements ''usd'' blank_page
   \<and> js_strict_eq (calculateAverage [Fin (1 / 2)]) (Fin (1 / 2))
   \<and> js_strict_eq (relative_difference (Fin (1 / 2)) (calculateAverage [Fin (1 / 2)])) (Fin 0)
   \<and> determineWeather (Fin (1 / 2)) (calculateAverage [Fin (1 / 2)]) = ''cloudy''
   \<and> (\<exists>r doc'. initApp quiet_network (Fin 0) (Fin 0) decimal empty_storage blank_page
                  = Some (r, doc', snd (fetch_all quiet_network empty_storage))
               \<and> text_of doc' ''jpy-icon'' = Some ''<U+26C5>'')
   \<and> (\<exists>r doc'. initApp quiet_network (Fin 0) (Fin 0) decimal empty_storage blank_page
                  = Some (r, doc', snd (fetch_all quiet_network empty_storage))
               \<and> text_of doc' ''usd-icon'' = Some ''<U+26C5>'')"
proof -
  have d: "is_double (Fin (1 / 2))"
    by code_simp
  have n: "Fin (1 / 2) \<noteq> NaN" and fin: "is_finite (Fin (1 / 2))"
    and nz: "\<not> is_zero (Fin (1 / 2))"
    by simp_all
  have "fst (fetch_all quiet_network empty_storage)
      = Inr (Number (Fin (1 / 2)), Arr [], Number (Fin (1 / 2)), Arr [])"
    by (simp add: fetch_all_def fetchWithCache_def getCachedData_def setCachedData_def
          current_fetch_def historical_fetch_def quiet_network_def empty_storage_def
          fetchCurrentRate_def fetchHistoricalRates_def fetchHistoricalRates_try_def
          rate_body_def empty_series_body_def Let_def split: prod.splits)
  then have f: "fetch_all quiet_network empty_storage
       = (Inr (Number (Fin (1 / 2)), Arr [], Number (Fin (1 / 2)), Arr []),
          snd (fetch_all quiet_network empty_storage))"
    by (simp add: prod_eq_iff)
  have pj: "pair_elements ''jpy'' blank_page" and pu: "pair_elements ''usd'' blank_page"
    by (simp_all add: pair_elements_def blank_page_def)
  note t = empty_history_cloudy [where rate = "Fin (1 / 2)" and net = quiet_network
      and s = empty_storage and jpy = "Fin (1 / 2)" and usd = "Fin (1 / 2)"
      and usdHistorical = "Arr []" and jpyHistorical = "Arr []"
      and s' = "snd (fetch_all quiet_network empty_storage)"
      and usdSeries = "[Fin (1 / 2)]" and jpySeries = "[Fin (1 / 2)]"
      and doc = blank_page and draw = "Fin 0" and draw' = "Fin 0"
      and toLocaleString = decimal]
  note t1 = t [THEN conjunct1]
  note t2 = t [THEN conjunct2, THEN conjunct1]
  note t3 = t [THEN conjunct2, THEN conjunct2, THEN conjunct1]
  note t4 = t [THEN conjunct2, THEN conjunct2, THEN conjunct2, THEN conjunct1]
  note t5 = t [THEN conjunct2, THEN conjunct2, THEN conjunct2, THEN conjunct2, THEN conjunct1]
  note t6 = t [THEN conjunct2, THEN conjunct2, THEN conjunct2, THEN conjunct2, THEN conjunct2]
  have a: "js_strict_eq (calculateAverage [Fin (1 / 2)]) (Fin (1 / 2))"
    by (rule t2 [THEN mp]) (intro conjI d n)
  have r: "js_strict_eq (relative_difference (Fin (1 / 2)) (calculateAverage [Fin (1 / 2)]))
      (Fin 0)"
    by (rule t3 [THEN mp]) (intro conjI d fin nz)
  have c: "determineWeather (Fin (1 / 2)) (calculateAverage [Fin (1 / 2)]) = ''cloudy''"
    by (rule t4 [THEN mp]) (rule d)
  have j: "\<exists>r doc'. initApp quiet_network (Fin 0) (Fin 0) decimal empty_storage blank_page
                  = Some (r, doc', snd (fetch_all quiet_network empty_storage))
               \<and> text_of doc' ''jpy-icon'' = Some ''<U+26C5>''"
    by (rule t5 [THEN mp]) (intro conjI f t1 d pj pu)
  have u: "\<exists>r doc'. initApp quiet_network (Fin 0) (Fin 0) decimal empty_storage blank_page
                  = Some (r, doc', snd (fetch_all quiet_network empty_storage))
               \<and> text_of doc' ''usd-icon'' = Some ''<U+26C5>''"
    by (rule t6 [THEN mp]) (intro conjI f t1 d pj pu)
  show ?thesis
    by (intro conjI d n fin nz f t1 pj pu a r c j u)
qed

section \<open>Where the first copy differs\<close>

text \<open>
  Where the first copy differs from the second: the average of the empty series is NaN;
  one day whose entry is \<open>null\<close> empties the whole series, and a day without a value for
  the quote currency puts \<open>undefined\<close> into it; a zero average is divided by.
\<close>

lemma calculateAverage_first_empty: "calculateAverage_first [] = NaN"
  by (simp add: calculateAverage_first_def js_sum_def js_div_def)

lemma fetchHistoricalRates_first_null_day:
  "fetchHistoricalRates_first
     (Resolved (Response True (Some (Obj [(''rates'',
        Obj [(''2024-01-02'', Obj [(''EUR'', Number (Fin (1 / 2)))]),
             (''2024-01-03'', Null)])])))) ''EUR'' = Inr []"
  by (simp add: fetchHistoricalRates_first_def)

lemma fetchHistoricalRates_first_missing_value:
  "fetchHistoricalRates_first
     (Resolved (Response True (Some (Obj [(''rates'',
        Obj [(''2024-01-02'', Obj [(''EUR'', Number (Fin (1 / 2)))]),
             (''2024-01-03'', Obj [(''USD'', Number (Fin 1))])])])))) ''EUR''
     = Inr [Number (Fin (1 / 2)), Undefined]"
  by (simp add: fetchHistoricalRates_first_def)

lemma update_diff_first_zero_average:
  "textContent (update_diff_first (Fin 1) (Fin 0) blank) = ''+Infinity%''"
  by code_simp

end
